theory Spec2Isabelle
  imports Complex_Main
begin

section \<open>JavaScript numbers\<close>

text \<open>
  A JavaScript number is an IEEE-754 binary64 value. A finite non-negative one is kept as a
  pair \<open>(m, e)\<close> standing for \<open>m * 2^e\<close>, with \<open>m = 0\<close> or \<open>2^52 \<le> m \<le> 2^53\<close>.
  \<open>round_frac p q\<close> is the binary64 value nearest to the fraction \<open>p / q\<close>
  (\<open>0 \<le> p\<close>, \<open>0 < q\<close>), ties to the even significand, which is what the operators
  \<open>/\<close> and \<open>*\<close> return on finite operands. Only the normal range is modelled; the scores
  computed below lie between \<open>2^-32\<close> and \<open>100\<close>, or are \<open>0\<close>.
\<close>

type_synonym double = "int \<times> int"

fun bitlength :: "int \<Rightarrow> int" where
  "bitlength n = (if n \<le> 0 then 0 else 1 + bitlength (n div 2))"

declare bitlength.simps [simp del]

definition ilog2 :: "int \<Rightarrow> int \<Rightarrow> int" where
  "ilog2 p q =
     (let d = bitlength p - bitlength q
      in if (if 0 \<le> d then q * 2 ^ nat d \<le> p else q \<le> p * 2 ^ nat (- d)) then d else d - 1)"

definition round_half_even :: "int \<Rightarrow> int \<Rightarrow> int" where
  "round_half_even p q =
     (let k = p div q; r = p mod q
      in if 2 * r < q then k else if q < 2 * r then k + 1 else if even k then k else k + 1)"

definition round_frac :: "int \<Rightarrow> int \<Rightarrow> double" where
  "round_frac p q =
     (if p = 0 then (0, 0)
      else let e = ilog2 p q - 52
           in (if 0 \<le> e then round_half_even p (q * 2 ^ nat e)
               else round_half_even (p * 2 ^ nat (- e)) q, e))"

definition double_val :: "double \<Rightarrow> rat" where
  "double_val d =
     (case d of (m, e) \<Rightarrow> if 0 \<le> e then of_int m * 2 ^ nat e else of_int m / 2 ^ nat (- e))"

definition double_of_nat :: "nat \<Rightarrow> double" where
  "double_of_nat n = round_frac (int n) 1"

definition double_div :: "nat \<Rightarrow> nat \<Rightarrow> double" where
  \<comment> \<open>\<open>a / b\<close> for two integer-valued numbers below \<open>2^53\<close>, \<open>b\<close> not \<open>0\<close>\<close>
  "double_div a b = round_frac (int a) (int b)"

definition double_mul :: "double \<Rightarrow> double \<Rightarrow> double" where
  "double_mul a b =
     (case a of (m1, e1) \<Rightarrow> case b of (m2, e2) \<Rightarrow>
        if 0 \<le> e1 + e2 then round_frac (m1 * m2 * 2 ^ nat (e1 + e2)) 1
        else round_frac (m1 * m2) (2 ^ nat (- (e1 + e2))))"

section \<open>Data model\<close>

text \<open>
  The module document and the objects nested in it, as \<open>createNewModule\<close> writes them and
  as the response schemas of \<open>generateModuleContent\<close> and \<open>generateTest\<close> declare them.
  Numbers are kept by their value, a rational. Field names are the source's; a prefix is
  added where two objects share a field name.
\<close>

datatype status = Started | Resources_added | Assignment_done | Completed | Needs_revisit

datatype phase =
  Ph_moduleSelect | Ph_resources | Ph_assignment | Ph_quiz | Ph_finalTest | Ph_results

record pick =
  title :: string
  url :: "string option"

record scenario =
  scenario_title :: string
  description :: string

datatype task_type = Text_input | Code_input

record task =
  task_id :: string
  task_description :: string
  task_marks :: rat
  task_kind :: task_type
  language :: "string option"

record assignment_section =
  section_id :: string
  section_title :: string
  section_marks :: rat
  sub_scenario :: scenario
  tasks :: "task list"

record assignment_resource =
  resource_title :: string
  resource_url :: string
  resource_type :: string
  category :: string

record assignment =
  assignment_title :: string
  total_marks :: rat
  main_scenario :: scenario
  sections :: "assignment_section list"
  assignment_resources :: "assignment_resource list"

text \<open>
  A JavaScript object used as a dictionary is an association list with unique keys, in
  insertion order; \<open>assoc_update k v\<close> is \<open>{...obj, [k]: v}\<close>.
\<close>

fun assoc_update :: "'k \<Rightarrow> 'v \<Rightarrow> ('k \<times> 'v) list \<Rightarrow> ('k \<times> 'v) list" where
  "assoc_update k v [] = [(k, v)]"
| "assoc_update k v ((k', v') # kvs) =
     (if k = k' then (k, v) # kvs else (k', v') # assoc_update k v kvs)"

type_synonym responses = "(string \<times> (string \<times> string) list) list"

record assignments =
  completed :: "bool option"
  responses_given :: "responses option"

record quiz_attempt =
  score :: rat
  date :: string

record module =
  module_id :: string
  name :: string
  status :: status
  resources :: "string list"
  teacherPicks :: "pick list"
  assignmentContent :: "assignment option"
  assignments :: assignments
  quizzes :: "quiz_attempt list"
  finalTestScore :: rat
  certificateIssued :: bool
  createdAt :: string
  lastUpdated :: string

text \<open>
  A question is an element of the array that \<open>JSON.parse\<close> returned for the test
  response. Nothing checks it against the response schema before it is scored, so its
  \<open>correctAnswer\<close> member is kept as the response gave it: absent (\<open>undefined\<close>), a
  string, or a JSON value of another type.
\<close>

datatype js_value = JS_undefined | JS_string string | JS_other

record test_question =
  question :: string
  options :: "(string \<times> string) list"
  correctAnswer :: js_value

record metrics =
  practicalityTheoreticity :: string
  predictability :: string
  difficulty :: string
  alignment :: string
  learningTime :: string
  proficiencyRequired :: string

record score_details =
  details_score :: rat
  details_comment :: string
  details_certificateIssued :: bool

subsection \<open>Documents of the store\<close>

text \<open>
  A Firestore document is a map from field names to values, so a field may be absent:
  \<open>None\<close> below. \<open>setDoc(ref, data, {merge: true})\<close> writes the fields that \<open>data\<close>
  carries and leaves the others; an empty map in \<open>data\<close> replaces the stored map, a
  non-empty one is merged field by field. An assignment object always carries all its
  fields, and arrays are replaced whole, so a written \<open>assignmentContent\<close>,
  \<open>teacherPicks\<close> or \<open>quizzes\<close> replaces the stored one.
\<close>

record doc =
  d_id :: "string option"
  d_name :: "string option"
  d_status :: "status option"
  d_resources :: "string list option"
  d_teacherPicks :: "pick list option"
  d_assignmentContent :: "assignment option option"
  d_assignments :: "assignments option"
  d_quizzes :: "quiz_attempt list option"
  d_finalTestScore :: "rat option"
  d_certificateIssued :: "bool option"
  d_createdAt :: "string option"
  d_lastUpdated :: "string option"

definition no_fields :: doc where
  "no_fields =
     \<lparr>d_id = None, d_name = None, d_status = None, d_resources = None, d_teacherPicks = None,
      d_assignmentContent = None, d_assignments = None, d_quizzes = None,
      d_finalTestScore = None, d_certificateIssued = None, d_createdAt = None,
      d_lastUpdated = None\<rparr>"

definition or_else :: "'a option \<Rightarrow> 'a option \<Rightarrow> 'a option" where
  "or_else new old = (case new of None \<Rightarrow> old | Some v \<Rightarrow> Some v)"

definition merge_fields :: "('k \<times> 'v) list \<Rightarrow> ('k \<times> 'v) list \<Rightarrow> ('k \<times> 'v) list" where
  "merge_fields new old = fold (\<lambda>(k, v). assoc_update k v) new old"

definition merge_responses :: "responses \<Rightarrow> responses \<Rightarrow> responses" where
  "merge_responses new old =
     fold (\<lambda>(sec, ts) acc.
             assoc_update sec
               (if ts = [] then []
                else case map_of acc sec of None \<Rightarrow> ts | Some os \<Rightarrow> merge_fields ts os)
               acc)
       new old"

definition merge_assignments :: "assignments \<Rightarrow> assignments option \<Rightarrow> assignments" where
  "merge_assignments new old =
     (case old of
        None \<Rightarrow> new
      | Some a \<Rightarrow>
          if completed new = None \<and> responses_given new = None then new
          else \<lparr>completed = or_else (completed new) (completed a),
                responses_given =
                  (case responses_given new of
                     None \<Rightarrow> responses_given a
                   | Some r \<Rightarrow>
                       if r = [] then Some r
                       else Some (case responses_given a of
                                    None \<Rightarrow> r | Some r0 \<Rightarrow> merge_responses r r0))\<rparr>)"

definition merge_doc :: "doc \<Rightarrow> doc \<Rightarrow> doc" where
  "merge_doc new old =
     \<lparr>d_id = or_else (d_id new) (d_id old),
      d_name = or_else (d_name new) (d_name old),
      d_status = or_else (d_status new) (d_status old),
      d_resources = or_else (d_resources new) (d_resources old),
      d_teacherPicks = or_else (d_teacherPicks new) (d_teacherPicks old),
      d_assignmentContent = or_else (d_assignmentContent new) (d_assignmentContent old),
      d_assignments =
        (case d_assignments new of
           None \<Rightarrow> d_assignments old
         | Some a \<Rightarrow> Some (merge_assignments a (d_assignments old))),
      d_quizzes = or_else (d_quizzes new) (d_quizzes old),
      d_finalTestScore = or_else (d_finalTestScore new) (d_finalTestScore old),
      d_certificateIssued = or_else (d_certificateIssued new) (d_certificateIssued old),
      d_createdAt = or_else (d_createdAt new) (d_createdAt old),
      d_lastUpdated = or_else (d_lastUpdated new) (d_lastUpdated old)\<rparr>"

definition doc_of_module :: "module \<Rightarrow> doc" where
  "doc_of_module m =
     \<lparr>d_id = Some (module_id m), d_name = Some (name m), d_status = Some (status m),
      d_resources = Some (resources m), d_teacherPicks = Some (teacherPicks m),
      d_assignmentContent = Some (assignmentContent m), d_assignments = Some (assignments m),
      d_quizzes = Some (quizzes m), d_finalTestScore = Some (finalTestScore m),
      d_certificateIssued = Some (certificateIssued m), d_createdAt = Some (createdAt m),
      d_lastUpdated = Some (lastUpdated m)\<rparr>"

text \<open>
  \<open>{id: doc.id, ...doc.data()}\<close>: the object read back from a document. The module
  record has every field of \<open>newModuleData\<close>, so the result is \<open>None\<close> for a
  document that lacks one of them.
\<close>

definition module_of_doc :: "string \<Rightarrow> doc \<Rightarrow> module option" where
  "module_of_doc i d =
     (case (d_name d, d_status d, d_resources d, d_teacherPicks d, d_assignmentContent d,
            d_assignments d, d_quizzes d, d_finalTestScore d, d_certificateIssued d,
            d_createdAt d, d_lastUpdated d) of
        (Some n, Some st, Some rs, Some tp, Some ac, Some asg, Some qz, Some fs, Some ci,
         Some ca, Some lu) \<Rightarrow>
          Some \<lparr>module_id = (case d_id d of None \<Rightarrow> i | Some j \<Rightarrow> j), name = n, status = st,
                resources = rs, teacherPicks = tp, assignmentContent = ac, assignments = asg,
                quizzes = qz, finalTestScore = fs, certificateIssued = ci, createdAt = ca,
                lastUpdated = lu\<rparr>
      | _ \<Rightarrow> None)"

section \<open>The component: environment, state and effects\<close>

text \<open>
  \<open>env\<close> holds what the handlers read and never set: the service credential
  (\<open>process.env.REACT_APP_GEMINI_API_KEY\<close>, \<open>None\<close> when undefined), whether \<open>db\<close> and
  \<open>userId\<close> are both set, the global variable \<open>payload\<close> as \<open>JSON.stringify\<close> renders
  it (\<open>None\<close> when no such global exists: no declaration of \<open>payload\<close> is in scope in
  \<open>generateModuleContent\<close>, so the identifier resolves through the global object only),
  and \<open>JSON.parse\<close> applied to the \<open>text\<close> member of a response part (\<open>None\<close> when
  the part has none), at the three response shapes: \<open>Inl msg\<close> when it throws a
  \<open>SyntaxError\<close> with that message, \<open>Inr v\<close> when it returns \<open>v\<close>. The picks and the
  assignment are taken to have the shape of the declared \<open>responseSchema\<close>; the questions
  are taken to be an array of objects, with \<open>correctAnswer\<close> as the response gave it.
\<close>

record env =
  geminiApiKey :: "string option"
  db_ready :: bool
  window_payload :: "string option"
  parse_picks :: "string option \<Rightarrow> string + pick list"
  parse_assignment :: "string option \<Rightarrow> string + assignment"
  parse_questions :: "string option \<Rightarrow> string + test_question list"

datatype request =
  ResourceListRequest string
| AssignmentRequest string
| TestRequest string string "string list"

datatype effect =
  ServiceRequest request
| SetDoc string doc
| SetDocMerge string doc
| GetDoc string

text \<open>
  The state variables of \<open>App\<close> that the handlers below read or set, the documents of
  the user's collection (\<open>store\<close>) and the calls issued so far to the generation service
  and to the store (\<open>trace\<close>). The state variables \<open>score\<close>, \<open>teacherPicks\<close> and
  \<open>assignmentContent\<close> carry the suffix \<open>St\<close>: a module has fields of the same names.
\<close>

record app_state =
  currentModule :: "module option"
  topic :: string
  questions :: "test_question list"
  userAnswers :: "nat \<rightharpoonup> string"
  scoreSt :: rat
  showCertificate :: bool
  userName :: string
  loading :: bool
  errorMessage :: string
  appPhase :: phase
  assessmentMetrics :: "metrics option"
  lastScoreDetails :: "score_details option"
  teacherPicksSt :: "pick list"
  assignmentContentSt :: "assignment option"
  currentAssignmentSectionIndex :: nat
  assignmentResponses :: responses
  store :: "string \<rightharpoonup> doc"
  trace :: "effect list"

definition falsy :: "string option \<Rightarrow> bool" where
  "falsy v = (case v of None \<Rightarrow> True | Some t \<Rightarrow> t = [])"

text \<open>
  \<open>updateModuleInFirestore(moduleId, data)\<close>. \<open>wr\<close> is the outcome of \<open>setDoc\<close>:
  \<open>None\<close> when it resolves, \<open>Some msg\<close> when it rejects with that message.
\<close>

definition updateModuleInFirestore ::
  "env \<Rightarrow> string option \<Rightarrow> string \<Rightarrow> doc \<Rightarrow> app_state \<Rightarrow> app_state" where
  "updateModuleInFirestore ev wr moduleId data s =
     (if \<not> db_ready ev then s\<lparr>errorMessage := ''Database not ready. Please try again.''\<rparr>
      else case wr of
        None \<Rightarrow>
          s\<lparr>store := (store s)(moduleId \<mapsto>
                  merge_doc data (case store s moduleId of None \<Rightarrow> no_fields | Some d \<Rightarrow> d)),
            trace := trace s @ [SetDocMerge moduleId data]\<rparr>
      | Some msg \<Rightarrow>
          s\<lparr>trace := trace s @ [SetDocMerge moduleId data],
            errorMessage := ''Failed to save module progress: '' @ msg\<rparr>)"

section \<open>Assessment evaluation\<close>

definition handleAnswerChange :: "nat \<Rightarrow> string \<Rightarrow> app_state \<Rightarrow> app_state" where
  "handleAnswerChange questionIndex selectedOption s =
     s\<lparr>userAnswers := (userAnswers s)(questionIndex \<mapsto> selectedOption)\<rparr>"

text \<open>
  \<open>userAnswers[index] === q.correctAnswer\<close>. The left side is \<open>undefined\<close> where no
  answer was recorded and an option key, a string, otherwise; strict equality holds
  between two \<open>undefined\<close> and between two equal strings, and in no other case.
\<close>

definition strict_equal :: "string option \<Rightarrow> js_value \<Rightarrow> bool" where
  "strict_equal a c =
     (case c of JS_undefined \<Rightarrow> a = None | JS_string t \<Rightarrow> a = Some t | JS_other \<Rightarrow> False)"

text \<open>
  The \<open>forEach\<close> loop of \<open>submitTest\<close>, from position \<open>index\<close> with \<open>correctCount = c\<close>.
\<close>

fun count_from :: "nat \<Rightarrow> test_question list \<Rightarrow> (nat \<rightharpoonup> string) \<Rightarrow> nat \<Rightarrow> nat" where
  "count_from index [] answers c = c"
| "count_from index (q # qs) answers c =
     count_from (index + 1) qs answers
       (if strict_equal (answers index) (correctAnswer q) then c + 1 else c)"

definition correctCount :: "test_question list \<Rightarrow> (nat \<rightharpoonup> string) \<Rightarrow> nat" where
  "correctCount qs answers = count_from 0 qs answers 0"

definition score_of :: "nat \<Rightarrow> nat \<Rightarrow> rat" where
  \<comment> \<open>\<open>(correctCount / questions.length) * 100\<close>\<close>
  "score_of c n = double_val (double_mul (double_div c n) (double_of_nat 100))"

definition calculatedScore :: "test_question list \<Rightarrow> (nat \<rightharpoonup> string) \<Rightarrow> rat" where
  "calculatedScore qs answers = score_of (correctCount qs answers) (length qs)"

text \<open>
  \<open>submitTest(type)\<close>. \<open>clock k\<close> is the \<open>k\<close>-th reading of
  \<open>new Date().toISOString()\<close> during the call.
\<close>

definition submitTest ::
  "env \<Rightarrow> string option \<Rightarrow> (nat \<Rightarrow> string) \<Rightarrow> string \<Rightarrow> app_state \<Rightarrow> app_state" where
  "submitTest ev wr clock ty s =
     (if questions s = [] then s\<lparr>errorMessage := ''Please generate a test first.''\<rparr>
      else
        let sc = calculatedScore (questions s) (userAnswers s);
            s1 = s\<lparr>scoreSt := sc\<rparr>
        in case currentModule s of
             None \<Rightarrow> s1
           | Some m \<Rightarrow>
               if ty = ''quiz'' then
                 let updatedQuizzes = quizzes m @ [\<lparr>score = sc, date = clock 0\<rparr>];
                     updatedModule = m\<lparr>quizzes := updatedQuizzes, lastUpdated := clock 1\<rparr>;
                     s2 = updateModuleInFirestore ev wr (module_id m)
                            (no_fields\<lparr>d_quizzes := Some updatedQuizzes,
                                       d_lastUpdated := Some (lastUpdated updatedModule)\<rparr>)
                            (s1\<lparr>currentModule := Some updatedModule\<rparr>)
                 in if 80 \<le> sc then s2\<lparr>appPhase := Ph_finalTest\<rparr> else s2
               else if ty = ''finalTest'' then
                 let issued = (80 \<le> sc);
                     st = (if issued then Completed else Needs_revisit);
                     updatedModule = m\<lparr>finalTestScore := sc, certificateIssued := issued,
                                       status := st, lastUpdated := clock 0\<rparr>;
                     s2 = updateModuleInFirestore ev wr (module_id m)
                            (no_fields\<lparr>d_finalTestScore := Some sc,
                                       d_certificateIssued := Some issued,
                                       d_status := Some st,
                                       d_lastUpdated := Some (lastUpdated updatedModule)\<rparr>)
                            (s1\<lparr>currentModule := Some updatedModule\<rparr>)
                 in s2\<lparr>lastScoreDetails :=
                         Some \<lparr>details_score = sc,
                               details_comment =
                                 (if issued
                                  then ''Congratulations! You have mastered this module.''
                                  else ''This module requires further study and practice.''),
                               details_certificateIssued = issued\<rparr>,
                       showCertificate := issued,
                       appPhase := Ph_results\<rparr>
               else s1)"

definition resetModuleForRetry ::
  "env \<Rightarrow> string option \<Rightarrow> (nat \<Rightarrow> string) \<Rightarrow> app_state \<Rightarrow> app_state" where
  "resetModuleForRetry ev wr clock s =
     (case currentModule s of
        None \<Rightarrow> s
      | Some m \<Rightarrow>
          let updatedModule =
                m\<lparr>status := Started,
                  assignments := \<lparr>completed = None, responses_given = None\<rparr>,
                  quizzes := [],
                  finalTestScore := 0,
                  certificateIssued := False,
                  lastUpdated := clock 0\<rparr>;
              s1 = updateModuleInFirestore ev wr (module_id m) (doc_of_module updatedModule)
                     (s\<lparr>currentModule := Some updatedModule\<rparr>)
          in s1\<lparr>appPhase := Ph_assignment,
                currentAssignmentSectionIndex := 0,
                assignmentResponses := [],
                questions := [],
                userAnswers := Map.empty,
                scoreSt := 0,
                showCertificate := False,
                userName := [],
                errorMessage := [],
                assessmentMetrics := None,
                lastScoreDetails := None\<rparr>)"

section \<open>Assignment navigation and submission\<close>

definition handleAssignmentResponseChange ::
  "string \<Rightarrow> string \<Rightarrow> string \<Rightarrow> app_state \<Rightarrow> app_state" where
  "handleAssignmentResponseChange sectionId taskId v s =
     s\<lparr>assignmentResponses :=
         assoc_update sectionId
           (assoc_update taskId v
              (case map_of (assignmentResponses s) sectionId of None \<Rightarrow> [] | Some ts \<Rightarrow> ts))
           (assignmentResponses s)\<rparr>"

text \<open>The branch that \<open>goToNextAssignmentSection\<close> and \<open>submitAssignment\<close> end with.\<close>

definition complete_assignment ::
  "env \<Rightarrow> string option \<Rightarrow> (nat \<Rightarrow> string) \<Rightarrow> assignments \<Rightarrow> module \<Rightarrow> app_state \<Rightarrow> app_state" where
  "complete_assignment ev wr clock updatedAssignments m s =
     (let updatedModule = m\<lparr>assignments := updatedAssignments, status := Assignment_done,
                            lastUpdated := clock 0\<rparr>;
          s1 = updateModuleInFirestore ev wr (module_id m)
                 (no_fields\<lparr>d_assignments := Some updatedAssignments,
                            d_status := Some (status updatedModule),
                            d_lastUpdated := Some (lastUpdated updatedModule)\<rparr>)
                 (s\<lparr>currentModule := Some updatedModule\<rparr>)
      in s1\<lparr>appPhase := Ph_quiz\<rparr>)"

definition on_earlier_section :: "app_state \<Rightarrow> bool" where
  \<comment> \<open>\<open>assignmentContent && currentAssignmentSectionIndex < assignmentContent.sections.length - 1\<close>\<close>
  "on_earlier_section s =
     (case assignmentContentSt s of
        None \<Rightarrow> False
      | Some a \<Rightarrow> int (currentAssignmentSectionIndex s) < int (length (sections a)) - 1)"

definition goToNextAssignmentSection ::
  "env \<Rightarrow> string option \<Rightarrow> (nat \<Rightarrow> string) \<Rightarrow> app_state \<Rightarrow> app_state" where
  "goToNextAssignmentSection ev wr clock s =
     (if on_earlier_section s
      then s\<lparr>currentAssignmentSectionIndex := currentAssignmentSectionIndex s + 1\<rparr>
      else case currentModule s of
             None \<Rightarrow> s
           | Some m \<Rightarrow>
               complete_assignment ev wr clock ((assignments m)\<lparr>completed := Some True\<rparr>) m s)"

definition goToPreviousAssignmentSection :: "app_state \<Rightarrow> app_state" where
  "goToPreviousAssignmentSection s =
     (if 0 < currentAssignmentSectionIndex s
      then s\<lparr>currentAssignmentSectionIndex := currentAssignmentSectionIndex s - 1\<rparr>
      else s)"

definition submitAssignment ::
  "env \<Rightarrow> string option \<Rightarrow> (nat \<Rightarrow> string) \<Rightarrow> app_state \<Rightarrow> app_state" where
  "submitAssignment ev wr clock s =
     (case currentModule s of
        None \<Rightarrow> s\<lparr>errorMessage := ''No assignment to submit.''\<rparr>
      | Some m \<Rightarrow>
          if assignmentContentSt s = None then s\<lparr>errorMessage := ''No assignment to submit.''\<rparr>
          else complete_assignment ev wr clock
                 ((assignments m)\<lparr>completed := Some True,
                                  responses_given := Some (assignmentResponses s)\<rparr>) m s)"

section \<open>Content generation\<close>

datatype js_error = ReferenceError string | TypeError string | SyntaxError string | Error string

fun message :: "js_error \<Rightarrow> string" where
  "message (ReferenceError m) = m"
| "message (TypeError m) = m"
| "message (SyntaxError m) = m"
| "message (Error m) = m"

text \<open>
  The body of a service response as the handlers inspect it: \<open>candidates\<close>, each with an
  optional \<open>content\<close> holding optional \<open>parts\<close>, and the \<open>error\<close> member of an error
  body (\<open>None\<close> when absent, otherwise its \<open>message\<close>).
\<close>

datatype part = Part (part_text: "string option")

datatype content = Content (parts: "part list option")

datatype candidate = Candidate (content: "content option")

record response_body =
  candidates :: "candidate list option"
  api_error :: "string option option"

text \<open>
  The outcome of one \<open>fetch\<close>: \<open>Rejected msg\<close> when \<open>fetch\<close> or the reading of the body as
  JSON rejects; otherwise the response's \<open>ok\<close>, \<open>status\<close>, \<open>statusText\<close> and body.
\<close>

datatype reply = Rejected string | Response bool nat string response_body

definition first_part :: "response_body \<Rightarrow> part option" where
  \<comment> \<open>\<open>candidates[0].content.parts[0]\<close>, when the five conjuncts of the handlers' test hold\<close>
  "first_part b =
     (case candidates b of
        None \<Rightarrow> None
      | Some [] \<Rightarrow> None
      | Some (c # _) \<Rightarrow>
          (case content c of
             None \<Rightarrow> None
           | Some ct \<Rightarrow>
               (case parts ct of None \<Rightarrow> None | Some [] \<Rightarrow> None | Some (pt # _) \<Rightarrow> Some pt)))"

text \<open>The decimal rendering of a non-negative integer, as a template literal gives it.\<close>

fun digits :: "nat \<Rightarrow> string" where
  "digits n =
     (if n < 10 then [''0123456789'' ! n] else digits (n div 10) @ [''0123456789'' ! (n mod 10)])"

declare digits.simps [simp del]

definition api_failure :: "nat \<Rightarrow> string \<Rightarrow> response_body \<Rightarrow> js_error" where
  \<comment> \<open>what the \<open>!response.ok\<close> branch throws\<close>
  "api_failure st statusText b =
     (case api_error b of
        None \<Rightarrow> TypeError ''Cannot read properties of undefined''
      | Some m \<Rightarrow>
          Error (''API error: '' @ digits st @ '' - '' @
                 (case m of None \<Rightarrow> statusText | Some t \<Rightarrow> if t = [] then statusText else t)))"

definition key_missing :: string where
  "key_missing =
     ''Gemini API Key is not set. Please set REACT_APP_GEMINI_API_KEY in your .env file.''"

definition no_picks :: "pick list" where
  "no_picks =
     [\<lparr>title = ''No specific picks generated. Please add your own resources.'',
       url = Some ''#''\<rparr>]"

definition malformed_picks :: "pick list" where
  "malformed_picks =
     [\<lparr>title = ''Could not generate specific picks. Please try again or add manually.'',
       url = Some ''#''\<rparr>]"

definition fallback_assignment :: "string \<Rightarrow> assignment" where
  "fallback_assignment moduleName =
     \<lparr>assignment_title = ''Generic Assignment for '' @ moduleName,
      total_marks = 100,
      main_scenario =
        \<lparr>scenario_title = ''Generic Scenario'',
         description = ''This is a fallback assignment.''\<rparr>,
      sections =
        [\<lparr>section_id = ''fallback1'',
          section_title = ''Part 1: Fallback Tasks'',
          section_marks = 50,
          sub_scenario =
            \<lparr>scenario_title = ''Fallback Sub-scenario'',
             description = ''Review basic concepts.''\<rparr>,
          tasks =
            [\<lparr>task_id = ''F1.1'', task_description = ''Complete task A.'', task_marks = 25,
              task_kind = Text_input, language = None\<rparr>]\<rparr>],
      assignment_resources = []\<rparr>"

text \<open>
  The two halves of the \<open>try\<close> block of \<open>generateModuleContent\<close>. Each returns the
  exception it throws, if any, with the state reached at that point.
\<close>

definition resource_stage ::
  "env \<Rightarrow> reply \<Rightarrow> string option \<Rightarrow> string \<Rightarrow> string \<Rightarrow> app_state
     \<Rightarrow> js_error option \<times> app_state" where
  "resource_stage ev resourceReply wr moduleName moduleId s =
     (let s1 = s\<lparr>trace := trace s @ [ServiceRequest (ResourceListRequest moduleName)]\<rparr>
      in case resourceReply of
           Rejected msg \<Rightarrow> (Some (Error msg), s1)
         | Response ok st statusText resourceResult \<Rightarrow>
             let (parsedResources, s2) =
                   (case first_part resourceResult of
                      None \<Rightarrow> (no_picks, s1)
                    | Some pt \<Rightarrow>
                        (case parse_picks ev (part_text pt) of
                           Inl e \<Rightarrow>
                             (malformed_picks,
                              s1\<lparr>errorMessage :=
                                   ''AI generated malformed resources. Trying again or using fallback.''\<rparr>)
                         | Inr v \<Rightarrow> (v, s1)))
             in (None,
                 updateModuleInFirestore ev wr moduleId
                   (no_fields\<lparr>d_teacherPicks := Some parsedResources\<rparr>)
                   (s2\<lparr>teacherPicksSt := parsedResources\<rparr>)))"

definition assignment_stage ::
  "env \<Rightarrow> reply \<Rightarrow> string option \<Rightarrow> string \<Rightarrow> string \<Rightarrow> app_state
     \<Rightarrow> js_error option \<times> app_state" where
  "assignment_stage ev assignmentReply wr moduleName moduleId s =
     (case window_payload ev of
        None \<Rightarrow> (Some (ReferenceError ''payload is not defined''), s)
      | Some body \<Rightarrow>
          let s1 = s\<lparr>trace := trace s @ [ServiceRequest (AssignmentRequest body)]\<rparr>
          in case assignmentReply of
               Rejected msg \<Rightarrow> (Some (Error msg), s1)
             | Response ok st statusText assignmentResult \<Rightarrow>
                 if \<not> ok then (Some (api_failure st statusText assignmentResult), s1)
                 else
                   let (parsedAssignment, s2) =
                         (case first_part assignmentResult of
                            None \<Rightarrow> (fallback_assignment moduleName, s1)
                          | Some pt \<Rightarrow>
                              (case parse_assignment ev (part_text pt) of
                                 Inl e \<Rightarrow>
                                   (fallback_assignment moduleName,
                                    s1\<lparr>errorMessage :=
                                         ''AI generated malformed assignment. Using fallback.''\<rparr>)
                               | Inr v \<Rightarrow> (v, s1)))
                   in (None,
                       updateModuleInFirestore ev wr moduleId
                         (no_fields\<lparr>d_assignmentContent := Some (Some parsedAssignment)\<rparr>)
                         (s2\<lparr>assignmentContentSt := Some parsedAssignment\<rparr>)))"

text \<open>
  \<open>generateModuleContent(moduleName, moduleId)\<close>, given the outcomes of the two requests
  and of the two writes.
\<close>

definition generateModuleContent ::
  "env \<Rightarrow> reply \<Rightarrow> string option \<Rightarrow> reply \<Rightarrow> string option \<Rightarrow> string \<Rightarrow> string
     \<Rightarrow> app_state \<Rightarrow> app_state" where
  "generateModuleContent ev resourceReply wr1 assignmentReply wr2 moduleName moduleId s =
     (let s1 = s\<lparr>loading := True, errorMessage := []\<rparr>
      in if falsy (geminiApiKey ev) then s1\<lparr>errorMessage := key_missing, loading := False\<rparr>
         else
           let (thrown, s2) =
                 (case resource_stage ev resourceReply wr1 moduleName moduleId s1 of
                    (Some e, t) \<Rightarrow> (Some e, t)
                  | (None, t) \<Rightarrow> assignment_stage ev assignmentReply wr2 moduleName moduleId t);
               s3 = (case thrown of
                       None \<Rightarrow> s2
                     | Some e \<Rightarrow>
                         s2\<lparr>errorMessage :=
                              ''Failed to generate module content: '' @ message e @
                              ''. Ensure your API key is valid.'',
                            teacherPicksSt := [],
                            assignmentContentSt := None\<rparr>)
           in s3\<lparr>loading := False\<rparr>)"

section \<open>Module creation\<close>

definition is_space :: "char \<Rightarrow> bool" where
  \<comment> \<open>the ASCII characters that \<open>trim\<close> removes\<close>
  "is_space c = (c \<in> set [CHR 0x09, CHR 0x0A, CHR 0x0B, CHR 0x0C, CHR 0x0D, CHR '' ''])"

definition blank :: "string \<Rightarrow> bool" where
  \<comment> \<open>\<open>!t.trim()\<close>\<close>
  "blank t = list_all is_space t"

definition newModuleData :: "string \<Rightarrow> string \<Rightarrow> (nat \<Rightarrow> string) \<Rightarrow> module" where
  \<comment> \<open>\<open>{id: moduleId, ...newModuleData}\<close>\<close>
  "newModuleData moduleId tp clock =
     \<lparr>module_id = moduleId, name = tp, status = Started, resources = [], teacherPicks = [],
      assignmentContent = None,
      assignments = \<lparr>completed = None, responses_given = None\<rparr>,
      quizzes = [], finalTestScore = 0, certificateIssued = False,
      createdAt = clock 0, lastUpdated = clock 1\<rparr>"

text \<open>
  \<open>createNewModule()\<close>. \<open>nowMs\<close> is \<open>Date.now()\<close>; \<open>createErr\<close> and \<open>readErr\<close> are the
  outcomes of the first \<open>setDoc\<close> and of \<open>getDoc\<close> (\<open>Some msg\<close> when they reject).
\<close>

definition createNewModule ::
  "env \<Rightarrow> nat \<Rightarrow> (nat \<Rightarrow> string) \<Rightarrow> string option \<Rightarrow> reply \<Rightarrow> string option \<Rightarrow> reply
     \<Rightarrow> string option \<Rightarrow> string option \<Rightarrow> app_state \<Rightarrow> app_state" where
  "createNewModule ev nowMs clock createErr resourceReply wr1 assignmentReply wr2 readErr s =
     (if blank (topic s) then s\<lparr>errorMessage := ''Please enter a topic for the new module.''\<rparr>
      else if \<not> db_ready ev
        then s\<lparr>errorMessage := ''Database not ready. Please wait for authentication.''\<rparr>
      else if falsy (geminiApiKey ev) then s\<lparr>errorMessage := key_missing\<rparr>
      else
        let moduleId = ''module-'' @ digits nowMs;
            created = newModuleData moduleId (topic s) clock;
            data = (doc_of_module created)\<lparr>d_id := None\<rparr>;
            s1 = s\<lparr>loading := True, errorMessage := [],
                   trace := trace s @ [SetDoc moduleId data]\<rparr>
        in case createErr of
             Some msg \<Rightarrow>
               s1\<lparr>errorMessage := ''Failed to create module: '' @ msg, loading := False\<rparr>
           | None \<Rightarrow>
               let s2 = s1\<lparr>store := (store s1)(moduleId \<mapsto> data),
                          currentModule := Some created,
                          appPhase := Ph_assignment,
                          topic := []\<rparr>;
                   s3 = generateModuleContent ev resourceReply wr1 assignmentReply wr2
                          (name created) moduleId s2;
                   s4 = s3\<lparr>trace := trace s3 @ [GetDoc moduleId]\<rparr>
               in case readErr of
                    Some msg \<Rightarrow>
                      s4\<lparr>errorMessage := ''Failed to create module: '' @ msg, loading := False\<rparr>
                  | None \<Rightarrow>
                      let s5 = (case store s4 moduleId of
                                  None \<Rightarrow> s4
                                | Some d \<Rightarrow>
                                    (case module_of_doc moduleId d of
                                       None \<Rightarrow> s4
                                     | Some m \<Rightarrow> s4\<lparr>currentModule := Some m\<rparr>))
                      in s5\<lparr>currentAssignmentSectionIndex := 0,
                            assignmentResponses := [],
                            loading := False\<rparr>)"

section \<open>Test generation\<close>

definition simulatedMetrics :: "string \<Rightarrow> metrics" where
  "simulatedMetrics ty =
     (if ty = ''quiz''
      then \<lparr>practicalityTheoreticity = ''60% Theoretical / 40% Practical'',
            predictability = ''Highly Predictable'',
            difficulty = ''Intermediate Graduate Level'',
            alignment = ''100% Aligned with designated resources.'',
            learningTime = ''5-10 minutes per attempt'',
            proficiencyRequired = ''Basic understanding of concepts.''\<rparr>
      else \<lparr>practicalityTheoreticity = ''50% Theoretical / 50% Practical'',
            predictability = ''Moderately Predictable (requires synthesis)'',
            difficulty = ''High Graduate Level'',
            alignment = ''100% Aligned with designated resources.'',
            learningTime = ''2-3 hours for completion'',
            proficiencyRequired =
              ''Strong, analytical understanding and problem-solving skills.''\<rparr>)"

definition combinedResources :: "module \<Rightarrow> pick list \<Rightarrow> string list" where
  "combinedResources m picks =
     resources m @
     map (\<lambda>p. case url p of None \<Rightarrow> title p | Some u \<Rightarrow> if u = [] then title p else u) picks"

definition test_failed :: "string \<Rightarrow> string" where
  "test_failed msg =
     ''Error generating test: '' @ msg @
     ''. Ensure your API key is valid and enabled for Gemini.''"

text \<open>\<open>generateTest(type)\<close>, given the outcome of its request.\<close>

definition generateTest :: "env \<Rightarrow> reply \<Rightarrow> string \<Rightarrow> app_state \<Rightarrow> app_state" where
  "generateTest ev testReply ty s =
     (case currentModule s of
        None \<Rightarrow> s\<lparr>errorMessage := ''Please select or create a module first.''\<rparr>
      | Some m \<Rightarrow>
          if falsy (geminiApiKey ev) then s\<lparr>errorMessage := key_missing\<rparr>
          else
            let s1 = s\<lparr>loading := True, errorMessage := [], questions := [],
                       userAnswers := Map.empty, scoreSt := 0, showCertificate := False,
                       assessmentMetrics := Some (simulatedMetrics ty),
                       trace := trace s @
                         [ServiceRequest
                            (TestRequest ty (name m) (combinedResources m (teacherPicksSt s)))]\<rparr>;
                s2 = (case testReply of
                        Rejected msg \<Rightarrow> s1\<lparr>errorMessage := test_failed msg\<rparr>
                      | Response ok st statusText b \<Rightarrow>
                          if \<not> ok
                          then s1\<lparr>errorMessage := test_failed (message (api_failure st statusText b))\<rparr>
                          else
                            (case first_part b of
                               None \<Rightarrow>
                                 s1\<lparr>errorMessage :=
                                      ''Failed to generate questions. Please try again.''\<rparr>
                             | Some pt \<Rightarrow>
                                 (case parse_questions ev (part_text pt) of
                                    Inl e \<Rightarrow> s1\<lparr>errorMessage := test_failed e\<rparr>
                                  | Inr parsedQuestions \<Rightarrow> s1\<lparr>questions := parsedQuestions\<rparr>)))
            in s2\<lparr>loading := False\<rparr>)"

section \<open>Adding a resource\<close>

text \<open>
  \<open>const [resourceInput, setResourceInput] = ''\<close> destructures the empty string, whose
  iterator yields nothing: both names are \<open>undefined\<close> in every render. \<open>addResource\<close>
  starts by evaluating \<open>resourceInput.trim()\<close>, which throws before any state is set and
  before any write. The result is the exception thrown, if any, with the state reached.
\<close>

definition resourceInput :: "string option" where
  "resourceInput = None"

definition addResource ::
  "env \<Rightarrow> string option \<Rightarrow> (nat \<Rightarrow> string) \<Rightarrow> app_state \<Rightarrow> js_error option \<times> app_state" where
  "addResource ev wr clock s =
     (case resourceInput of
        None \<Rightarrow> (Some (TypeError ''Cannot read properties of undefined''), s)
      | Some r \<Rightarrow>
          (case currentModule s of
             None \<Rightarrow> (None, s\<lparr>errorMessage := ''Please enter a resource or select a module.''\<rparr>)
           | Some m \<Rightarrow>
               if blank r
               then (None, s\<lparr>errorMessage := ''Please enter a resource or select a module.''\<rparr>)
               else
                 let updatedResources = resources m @ [r];
                     updatedModule = m\<lparr>resources := updatedResources, status := Resources_added,
                                       lastUpdated := clock 0\<rparr>
                 in (Some (TypeError ''setResourceInput is not a function''),
                     updateModuleInFirestore ev wr (module_id m)
                       (no_fields\<lparr>d_resources := Some updatedResources,
                                  d_status := Some Resources_added,
                                  d_lastUpdated := Some (lastUpdated updatedModule)\<rparr>)
                       (s\<lparr>currentModule := Some updatedModule\<rparr>))))"

section \<open>Operations on the current module\<close>

text \<open>
  The handlers that act on the module held in \<open>currentModule\<close>, as one step function.
  \<open>wr\<close> and \<open>clock\<close> are the outcome of the write and the clock readings of the step.
\<close>

datatype operation =
  Op_goToNextAssignmentSection
| Op_goToPreviousAssignmentSection
| Op_submitAssignment
| Op_handleAssignmentResponseChange string string string
| Op_generateTest reply string
| Op_handleAnswerChange nat string
| Op_submitTest string
| Op_resetModuleForRetry

fun apply_op ::
  "env \<Rightarrow> string option \<Rightarrow> (nat \<Rightarrow> string) \<Rightarrow> operation \<Rightarrow> app_state \<Rightarrow> app_state" where
  "apply_op ev wr clock Op_goToNextAssignmentSection s = goToNextAssignmentSection ev wr clock s"
| "apply_op ev wr clock Op_goToPreviousAssignmentSection s = goToPreviousAssignmentSection s"
| "apply_op ev wr clock Op_submitAssignment s = submitAssignment ev wr clock s"
| "apply_op ev wr clock (Op_handleAssignmentResponseChange sec tsk v) s =
     handleAssignmentResponseChange sec tsk v s"
| "apply_op ev wr clock (Op_generateTest testReply ty) s = generateTest ev testReply ty s"
| "apply_op ev wr clock (Op_handleAnswerChange i opt) s = handleAnswerChange i opt s"
| "apply_op ev wr clock (Op_submitTest ty) s = submitTest ev wr clock ty s"
| "apply_op ev wr clock Op_resetModuleForRetry s = resetModuleForRetry ev wr clock s"

text \<open>
  The status changes of the state machine, in the words of the specification:
  started or resources_added to assignment_done, assignment_done to completed or
  needs_revisit, needs_revisit to started.
\<close>

definition listed_transition :: "status \<Rightarrow> status \<Rightarrow> bool" where
  "listed_transition a b =
     (((a = Started \<or> a = Resources_added) \<and> b = Assignment_done) \<or>
      (a = Assignment_done \<and> (b = Completed \<or> b = Needs_revisit)) \<or>
      (a = Needs_revisit \<and> b = Started))"

text \<open>The status in which the state machine places each status-setting operation.\<close>

fun source_status :: "operation \<Rightarrow> status \<Rightarrow> bool" where
  "source_status Op_goToNextAssignmentSection a = (a = Started \<or> a = Resources_added)"
| "source_status Op_submitAssignment a = (a = Started \<or> a = Resources_added)"
| "source_status (Op_submitTest ty) a = (a = Assignment_done)"
| "source_status Op_resetModuleForRetry a = (a = Needs_revisit)"
| "source_status _ a = True"

section \<open>Sample inputs\<close>

definition initial_state :: app_state where
  \<comment> \<open>the initial values of the state variables, an empty collection, nothing issued\<close>
  "initial_state =
     \<lparr>currentModule = None, topic = [], questions = [], userAnswers = Map.empty, scoreSt = 0,
      showCertificate = False, userName = [], loading = False, errorMessage = [],
      appPhase = Ph_moduleSelect, assessmentMetrics = None, lastScoreDetails = None,
      teacherPicksSt = [], assignmentContentSt = None, currentAssignmentSectionIndex = 0,
      assignmentResponses = [], store = Map.empty, trace = []\<rparr>"

definition sample_clock :: "nat \<Rightarrow> string" where
  "sample_clock k = ''2025-01-01T00:00:00.000Z''"

definition sample_env :: env where
  \<comment> \<open>credential set, store ready, no global \<open>payload\<close>, responses that are not JSON\<close>
  "sample_env =
     \<lparr>geminiApiKey = Some ''key'', db_ready = True, window_payload = None,
      parse_picks = (\<lambda>t. Inl ''Unexpected end of JSON input''),
      parse_assignment = (\<lambda>t. Inl ''Unexpected end of JSON input''),
      parse_questions = (\<lambda>t. Inl ''Unexpected end of JSON input'')\<rparr>"

definition sample_module :: module where
  "sample_module = newModuleData ''module-1'' ''Graph Theory Basics'' sample_clock"

definition sample_question :: "string \<Rightarrow> test_question" where
  "sample_question k =
     \<lparr>question = ''Which option?'',
      options = [(''A'', ''first''), (''B'', ''second''), (''C'', ''third''), (''D'', ''fourth'')],
      correctAnswer = JS_string k\<rparr>"

definition sample_questions :: "test_question list" where
  "sample_questions =
     [sample_question ''A'', sample_question ''B'', sample_question ''C'', sample_question ''D'',
      sample_question ''A'']"

definition sample_section :: "string \<Rightarrow> assignment_section" where
  "sample_section i =
     \<lparr>section_id = i, section_title = ''Part'', section_marks = 30,
      sub_scenario = \<lparr>scenario_title = ''Sub-scenario'', description = ''Details''\<rparr>,
      tasks = []\<rparr>"

definition sample_assignment :: assignment where
  "sample_assignment =
     (fallback_assignment ''Graph Theory Basics'')
       \<lparr>sections := [sample_section ''s1'', sample_section ''s2'', sample_section ''s3'']\<rparr>"

definition no_candidates :: reply where
  "no_candidates = Response True 200 ''OK'' \<lparr>candidates = None, api_error = None\<rparr>"

definition malformed_reply :: reply where
  "malformed_reply =
     Response True 200 ''OK''
       \<lparr>candidates = Some [Candidate (Some (Content (Some [Part (Some ''not json'')])))],
        api_error = None\<rparr>"

definition answered_state :: app_state where
  \<comment> \<open>five questions; the first two answered rightly, the third wrongly, two not at all\<close>
  "answered_state =
     initial_state
       \<lparr>currentModule := Some sample_module,
        questions := sample_questions,
        userAnswers := [0 \<mapsto> ''A'', 1 \<mapsto> ''B'', 2 \<mapsto> ''D'']\<rparr>"

definition unanswered_state :: app_state where
  "unanswered_state =
     initial_state\<lparr>currentModule := Some sample_module, questions := sample_questions\<rparr>"

definition unkeyed_question :: test_question where
  \<comment> \<open>a question whose object has no \<open>correctAnswer\<close> member\<close>
  "unkeyed_question = (sample_question ''A'')\<lparr>correctAnswer := JS_undefined\<rparr>"

definition unkeyed_state :: app_state where
  \<comment> \<open>five such questions, none answered\<close>
  "unkeyed_state =
     initial_state
       \<lparr>currentModule := Some sample_module,
        questions := replicate 5 unkeyed_question\<rparr>"

definition revisit_state :: app_state where
  "revisit_state =
     initial_state
       \<lparr>currentModule :=
          Some (sample_module
                  \<lparr>status := Needs_revisit, resources := [''notes.pdf''],
                   teacherPicks := no_picks, assignmentContent := Some sample_assignment,
                   assignments := \<lparr>completed = Some True, responses_given = None\<rparr>,
                   quizzes := [\<lparr>score = 80, date = sample_clock 0\<rparr>],
                   finalTestScore := 60\<rparr>),
        appPhase := Ph_results\<rparr>"

definition assignment_state :: app_state where
  "assignment_state =
     initial_state
       \<lparr>currentModule := Some sample_module,
        assignmentContentSt := Some sample_assignment,
        appPhase := Ph_assignment\<rparr>"

definition content_fields_apart :: "doc \<Rightarrow> doc \<Rightarrow> bool" where
  \<comment> \<open>the two documents differ at most in \<open>teacherPicks\<close> and \<open>assignmentContent\<close>\<close>
  "content_fields_apart d d' =
     (d_id d' = d_id d \<and> d_name d' = d_name d \<and> d_status d' = d_status d \<and>
      d_resources d' = d_resources d \<and> d_assignments d' = d_assignments d \<and>
      d_quizzes d' = d_quizzes d \<and> d_finalTestScore d' = d_finalTestScore d \<and>
      d_certificateIssued d' = d_certificateIssued d \<and> d_createdAt d' = d_createdAt d \<and>
      d_lastUpdated d' = d_lastUpdated d)"

definition quiz_env :: env where
  \<comment> \<open>as \<open>sample_env\<close>, with responses that parse to the five sample questions\<close>
  "quiz_env = sample_env\<lparr>parse_questions := (\<lambda>t. Inr sample_questions)\<rparr>"

definition created_state :: app_state where
  "created_state =
     createNewModule quiz_env 1 sample_clock None no_candidates None no_candidates None None
       (initial_state\<lparr>topic := ''Graph Theory Basics''\<rparr>)"

definition passed_state :: app_state where
  "passed_state =
     submitTest quiz_env None sample_clock ''finalTest''
       (handleAnswerChange 3 ''D''
          (handleAnswerChange 2 ''C''
             (handleAnswerChange 1 ''B''
                (handleAnswerChange 0 ''A''
                   (generateTest quiz_env malformed_reply ''finalTest'' created_state)))))"

definition keyless_env :: env where
  "keyless_env = sample_env\<lparr>geminiApiKey := None\<rparr>"

definition parsedResources :: "env \<Rightarrow> response_body \<Rightarrow> pick list" where
  \<comment> \<open>the value that \<open>generateModuleContent\<close> takes for \<open>parsedResources\<close>\<close>
  "parsedResources ev b =
     (case first_part b of
        None \<Rightarrow> no_picks
      | Some pt \<Rightarrow>
          (case parse_picks ev (part_text pt) of Inl e \<Rightarrow> malformed_picks | Inr v \<Rightarrow> v))"

definition sample_picks :: "pick list" where
  "sample_picks =
     [\<lparr>title = ''Graph theory lecture notes'', url = Some ''https://example.org/graphs''\<rparr>,
      \<lparr>title = ''Introduction to graphs'', url = None\<rparr>]"

definition bound_env :: env where
  \<comment> \<open>as \<open>sample_env\<close>, with a global \<open>payload\<close> and responses that parse\<close>
  "bound_env =
     sample_env\<lparr>window_payload := Some ''{}'',
                parse_picks := (\<lambda>t. Inr sample_picks),
                parse_assignment := (\<lambda>t. Inr sample_assignment)\<rparr>"

definition content_fields_set :: "doc \<Rightarrow> bool" where
  "content_fields_set d = (d_teacherPicks d \<noteq> None \<and> d_assignmentContent d \<noteq> None)"

section \<open>Arithmetic of the score\<close>

lemma bitlength_numeral [simp]:
  "bitlength 0 = 0"
  "bitlength 1 = 1"
  "bitlength (numeral (Num.Bit0 k)) = 1 + bitlength (numeral k)"
  "bitlength (numeral (Num.Bit1 k)) = 1 + bitlength (numeral k)"
     apply (simp add: bitlength.simps)
    apply (simp add: bitlength.simps)
   apply (subst bitlength.simps, simp)
  apply (subst bitlength.simps, simp)
  done

lemmas double_defs = double_div_def double_of_nat_def round_frac_def ilog2_def
  round_half_even_def double_mul_def double_val_def Let_def

lemma score_of_0: "score_of 0 n = 0"
  by (simp add: score_of_def double_defs)

lemma score_of_5:
  "score_of 0 5 = 0" "score_of 1 5 = 20" "score_of 2 5 = 40" "score_of 3 5 = 60"
  "score_of 4 5 = 80" "score_of 5 5 = 100"
  by (simp_all add: score_of_def double_defs)


text \<open>
  The score is a binary64 value: one right answer out of three gives the double nearest
  to \<open>100 / 3\<close>, which lies below it.
\<close>

lemma score_of_third: "score_of 1 3 = 2345624805922133 / 70368744177664"
  by (simp add: score_of_def double_defs)

lemma score_of_third_inexact: "score_of 1 3 < 100 / 3"
  unfolding score_of_third by simp

section \<open>The counting loop\<close>

lemma strict_equal_None [simp]: "strict_equal None c = (c = JS_undefined)"
  by (cases c) (simp_all add: strict_equal_def)

lemma strict_equal_Some [simp]: "strict_equal (Some a) c = (c = JS_string a)"
  by (cases c) (auto simp: strict_equal_def)

lemma count_from_eq:
  "count_from i qs ans c =
     c + length (filter (\<lambda>k. strict_equal (ans (i + k)) (correctAnswer (qs ! k)))
                  [0..<length qs])"
proof (induction qs arbitrary: i c)
  case Nil
  then show ?case by simp
next
  case (Cons q qs)
  have "[0..<length (q # qs)] = 0 # map Suc [0..<length qs]"
    by (simp add: upt_conv_Cons map_Suc_upt del: upt_Suc)
  then show ?case
    using Cons.IH [of "i + 1"] by (simp add: filter_map comp_def)
qed

lemma correctCount_card:
  "correctCount qs ans =
     card {k. k < length qs \<and> strict_equal (ans k) (correctAnswer (qs ! k))}"
proof -
  let ?P = "\<lambda>k. strict_equal (ans k) (correctAnswer (qs ! k))"
  have "correctCount qs ans = length (filter ?P [0..<length qs])"
    by (simp add: correctCount_def count_from_eq)
  also have "\<dots> = card (set (filter ?P [0..<length qs]))"
    by (metis distinct_card distinct_filter distinct_upt)
  also have "set (filter ?P [0..<length qs]) = {k. k < length qs \<and> ?P k}"
    by auto
  finally show ?thesis .
qed


section \<open>What a write leaves alone\<close>

lemma update_frame [simp]:
  "currentModule (updateModuleInFirestore ev wr i d s) = currentModule s"
  "scoreSt (updateModuleInFirestore ev wr i d s) = scoreSt s"
  "questions (updateModuleInFirestore ev wr i d s) = questions s"
  "userAnswers (updateModuleInFirestore ev wr i d s) = userAnswers s"
  "appPhase (updateModuleInFirestore ev wr i d s) = appPhase s"
  "teacherPicksSt (updateModuleInFirestore ev wr i d s) = teacherPicksSt s"
  "assignmentContentSt (updateModuleInFirestore ev wr i d s) = assignmentContentSt s"
  "currentAssignmentSectionIndex (updateModuleInFirestore ev wr i d s) =
     currentAssignmentSectionIndex s"
  "loading (updateModuleInFirestore ev wr i d s) = loading s"
  "topic (updateModuleInFirestore ev wr i d s) = topic s"
  by (simp_all add: updateModuleInFirestore_def split: option.splits)

lemma update_trace_ready:
  "db_ready ev \<Longrightarrow>
   trace (updateModuleInFirestore ev wr i d s) = trace s @ [SetDocMerge i d]"
  by (simp add: updateModuleInFirestore_def split: option.splits)

section \<open>Scoring\<close>

lemma scoreSt_submitTest:
  "questions s \<noteq> [] \<Longrightarrow>
   scoreSt (submitTest ev wr clock ty s) = calculatedScore (questions s) (userAnswers s)"
  by (simp add: submitTest_def Let_def split: option.splits)

lemmas sample_defs = answered_state_def initial_state_def sample_questions_def
  sample_question_def sample_module_def sample_clock_def sample_env_def newModuleData_def

lemma answered_state_count: "correctCount (questions answered_state) (userAnswers answered_state) = 2"
  by (simp add: sample_defs correctCount_def strict_equal_def)



lemma unanswered_bound:
  "correctCount qs ans +
     card {k. k < length qs \<and> ans k = None \<and> correctAnswer (qs ! k) \<noteq> JS_undefined}
     \<le> length qs"
proof -
  let ?A = "{k. k < length qs \<and> strict_equal (ans k) (correctAnswer (qs ! k))}"
  let ?B = "{k. k < length qs \<and> ans k = None \<and> correctAnswer (qs ! k) \<noteq> JS_undefined}"
  have fin: "finite ?A" "finite ?B" by simp_all
  have "?A \<inter> ?B = {}"
    by auto
  then have "card ?A + card ?B = card (?A \<union> ?B)"
    using fin by (simp add: card_Un_disjoint)
  also have "\<dots> \<le> card {k. k < length qs}"
    by (rule card_mono) auto
  finally show ?thesis by (simp add: correctCount_card)
qed

lemma correctCount_empty:
  "correctCount qs Map.empty = card {k. k < length qs \<and> correctAnswer (qs ! k) = JS_undefined}"
proof -
  have "{k. k < length qs \<and> strict_equal None (correctAnswer (qs ! k))} =
        {k. k < length qs \<and> correctAnswer (qs ! k) = JS_undefined}"
    by simp
  then show ?thesis by (simp add: correctCount_card)
qed

lemma correctCount_empty_keyed:
  assumes "\<forall>q \<in> set qs. correctAnswer q \<noteq> JS_undefined"
  shows "correctCount qs Map.empty = 0"
proof -
  have "{k. k < length qs \<and> correctAnswer (qs ! k) = JS_undefined} = {}"
    using assms by auto
  then show ?thesis by (simp add: correctCount_empty)
qed

lemma submitTest_quiz_module:
  "questions s \<noteq> [] \<Longrightarrow> currentModule s = Some m \<Longrightarrow>
   currentModule (submitTest ev wr clock ''quiz'' s) =
     Some (m\<lparr>quizzes := quizzes m @
                   [\<lparr>score = calculatedScore (questions s) (userAnswers s), date = clock 0\<rparr>],
             lastUpdated := clock 1\<rparr>)"
  by (simp add: submitTest_def Let_def)

lemma submitTest_final_module:
  "questions s \<noteq> [] \<Longrightarrow> currentModule s = Some m \<Longrightarrow>
   currentModule (submitTest ev wr clock ''finalTest'' s) =
     Some (m\<lparr>finalTestScore := calculatedScore (questions s) (userAnswers s),
             certificateIssued := (80 \<le> calculatedScore (questions s) (userAnswers s)),
             status := (if 80 \<le> calculatedScore (questions s) (userAnswers s)
                        then Completed else Needs_revisit),
             lastUpdated := clock 0\<rparr>)"
  by (simp add: submitTest_def Let_def)

lemma calculatedScore_empty:
  "\<forall>q \<in> set qs. correctAnswer q \<noteq> JS_undefined \<Longrightarrow> calculatedScore qs Map.empty = 0"
  by (simp add: calculatedScore_def correctCount_empty_keyed score_of_0)

text \<open>
  C10, as amended. A question that has a \<open>correctAnswer\<close> and no recorded answer is never
  counted as correct: the correct ones and these together are at most all questions.
  With no answer at all, the questions counted as correct are exactly those without a
  \<open>correctAnswer\<close>; if every question has one, the score is 0, and the quiz record or the
  final-test overwrite is applied with that score.
\<close>

theorem unanswered_incorrect_when_keyed:
  assumes "questions s \<noteq> []"
  shows "correctCount (questions s) (userAnswers s) +
           card {k. k < length (questions s) \<and> userAnswers s k = None \<and>
                    correctAnswer (questions s ! k) \<noteq> JS_undefined}
           \<le> length (questions s) \<and>
         (userAnswers s = Map.empty \<longrightarrow>
            correctCount (questions s) (userAnswers s) =
              card {k. k < length (questions s) \<and>
                       correctAnswer (questions s ! k) = JS_undefined}) \<and>
         (userAnswers s = Map.empty \<and>
          (\<forall>q \<in> set (questions s). correctAnswer q \<noteq> JS_undefined) \<longrightarrow>
            scoreSt (submitTest ev wr clock ty s) = 0 \<and>
            (\<forall>m. currentModule s = Some m \<longrightarrow>
               currentModule (submitTest ev wr clock ''quiz'' s) =
                 Some (m\<lparr>quizzes := quizzes m @ [\<lparr>score = 0, date = clock 0\<rparr>],
                         lastUpdated := clock 1\<rparr>) \<and>
               currentModule (submitTest ev wr clock ''finalTest'' s) =
                 Some (m\<lparr>finalTestScore := 0, certificateIssued := False,
                         status := Needs_revisit, lastUpdated := clock 0\<rparr>)))"
  using assms
  by (simp add: unanswered_bound correctCount_empty scoreSt_submitTest submitTest_quiz_module
        submitTest_final_module calculatedScore_empty)

theorem unanswered_incorrect_when_keyed_witness:
  "questions unanswered_state \<noteq> [] \<and>
   userAnswers unanswered_state = Map.empty \<and>
   currentModule unanswered_state = Some sample_module \<and>
   correctCount (questions unanswered_state) (userAnswers unanswered_state) = 0 \<and>
   scoreSt (submitTest sample_env None sample_clock ''quiz'' unanswered_state) = 0 \<and>
   currentModule (submitTest sample_env None sample_clock ''quiz'' unanswered_state) =
     Some (sample_module\<lparr>quizzes := [\<lparr>score = 0, date = sample_clock 0\<rparr>],
                          lastUpdated := sample_clock 1\<rparr>) \<and>
   currentModule (submitTest sample_env None sample_clock ''finalTest'' unanswered_state) =
     Some (sample_module\<lparr>finalTestScore := 0, certificateIssued := False,
                          status := Needs_revisit, lastUpdated := sample_clock 0\<rparr>)"
proof -
  have ne: "questions unanswered_state \<noteq> []"
    and em: "userAnswers unanswered_state = Map.empty"
    and cm: "currentModule unanswered_state = Some sample_module"
    and qz: "quizzes sample_module = []"
    and keyed: "\<forall>q \<in> set (questions unanswered_state). correctAnswer q \<noteq> JS_undefined"
    by (simp_all add: unanswered_state_def sample_defs)
  have c0: "correctCount (questions unanswered_state) (userAnswers unanswered_state) = 0"
    using em keyed by (simp add: correctCount_empty_keyed)
  show ?thesis
    using unanswered_incorrect_when_keyed [OF ne, of sample_env None sample_clock "''quiz''"]
      ne em cm qz keyed c0
    by simp
qed

text \<open>
  Five questions whose objects carry no \<open>correctAnswer\<close>, none of them answered: each
  comparison is between two \<open>undefined\<close>, all five count as correct, the score is 100
  and the final test is passed.
\<close>

theorem unanswered_counts_as_correct:
  "questions unkeyed_state \<noteq> [] \<and>
   userAnswers unkeyed_state = Map.empty \<and>
   correctCount (questions unkeyed_state) (userAnswers unkeyed_state) = 5 \<and>
   scoreSt (submitTest sample_env None sample_clock ''finalTest'' unkeyed_state) = 100 \<and>
   currentModule (submitTest sample_env None sample_clock ''finalTest'' unkeyed_state) =
     Some (sample_module\<lparr>finalTestScore := 100, certificateIssued := True,
                          status := Completed, lastUpdated := sample_clock 0\<rparr>)"
proof -
  have q: "questions unkeyed_state = replicate 5 unkeyed_question"
    and em: "userAnswers unkeyed_state = Map.empty"
    and cm: "currentModule unkeyed_state = Some sample_module"
    by (simp_all add: unkeyed_state_def initial_state_def)
  have ne: "questions unkeyed_state \<noteq> []" using q by simp
  have len: "length (questions unkeyed_state) = 5" using q by simp
  have c: "correctCount (questions unkeyed_state) (userAnswers unkeyed_state) = 5"
    using q em
    by (simp add: correctCount_def numeral_eq_Suc unkeyed_question_def strict_equal_def)
  have sc: "calculatedScore (questions unkeyed_state) (userAnswers unkeyed_state) = 100"
    using c len by (simp add: calculatedScore_def score_of_5)
  show ?thesis
    using ne em cm c sc by (simp add: scoreSt_submitTest submitTest_final_module)
qed

text \<open>
  C7. A quiz submission appends exactly one record \<open>{score, date}\<close> to the module's
  \<open>quizzes\<close>, whatever the score, and leaves \<open>status\<close>, \<open>finalTestScore\<close> and
  \<open>certificateIssued\<close> as they were; a final-test submission overwrites
  \<open>finalTestScore\<close> and adds nothing to \<open>quizzes\<close>. The write issued carries the same
  fields only.
\<close>

theorem submitTest_records:
  assumes "questions s \<noteq> []" and "currentModule s = Some m"
    and "sc = calculatedScore (questions s) (userAnswers s)"
  shows "(\<exists>m'. currentModule (submitTest ev wr clock ''quiz'' s) = Some m' \<and>
            quizzes m' = quizzes m @ [\<lparr>score = sc, date = clock 0\<rparr>] \<and>
            length (quizzes m') = length (quizzes m) + 1 \<and>
            status m' = status m \<and>
            finalTestScore m' = finalTestScore m \<and>
            certificateIssued m' = certificateIssued m) \<and>
         (\<exists>m'. currentModule (submitTest ev wr clock ''finalTest'' s) = Some m' \<and>
            finalTestScore m' = sc \<and>
            quizzes m' = quizzes m) \<and>
         (db_ready ev \<longrightarrow>
            trace (submitTest ev wr clock ''quiz'' s) =
              trace s @ [SetDocMerge (module_id m)
                           (no_fields\<lparr>d_quizzes := Some (quizzes m @ [\<lparr>score = sc, date = clock 0\<rparr>]),
                                      d_lastUpdated := Some (clock 1)\<rparr>)] \<and>
            trace (submitTest ev wr clock ''finalTest'' s) =
              trace s @ [SetDocMerge (module_id m)
                           (no_fields\<lparr>d_finalTestScore := Some sc,
                                      d_certificateIssued := Some (80 \<le> sc),
                                      d_status := Some (if 80 \<le> sc then Completed else Needs_revisit),
                                      d_lastUpdated := Some (clock 0)\<rparr>)])"
proof -
  have tq: "trace (submitTest ev wr clock ''quiz'' s) =
              trace s @ [SetDocMerge (module_id m)
                           (no_fields\<lparr>d_quizzes := Some (quizzes m @ [\<lparr>score = sc, date = clock 0\<rparr>]),
                                      d_lastUpdated := Some (clock 1)\<rparr>)]" if "db_ready ev"
    using assms that by (simp add: submitTest_def Let_def update_trace_ready)
  have tf: "trace (submitTest ev wr clock ''finalTest'' s) =
              trace s @ [SetDocMerge (module_id m)
                           (no_fields\<lparr>d_finalTestScore := Some sc,
                                      d_certificateIssued := Some (80 \<le> sc),
                                      d_status := Some (if 80 \<le> sc then Completed else Needs_revisit),
                                      d_lastUpdated := Some (clock 0)\<rparr>)]" if "db_ready ev"
    using assms that by (simp add: submitTest_def Let_def update_trace_ready)
  show ?thesis
    using assms tq tf by (simp add: submitTest_quiz_module submitTest_final_module)
qed

lemma answered_state_score:
  "calculatedScore (questions answered_state) (userAnswers answered_state) = 40"
proof -
  have "length (questions answered_state) = 5" by (simp add: sample_defs)
  then show ?thesis by (simp add: calculatedScore_def answered_state_count score_of_5)
qed

theorem submitTest_records_witness:
  "questions answered_state \<noteq> [] \<and>
   currentModule answered_state = Some sample_module \<and>
   db_ready sample_env \<and>
   currentModule (submitTest sample_env None sample_clock ''quiz'' answered_state) =
     Some (sample_module\<lparr>quizzes := [\<lparr>score = 40, date = sample_clock 0\<rparr>],
                          lastUpdated := sample_clock 1\<rparr>) \<and>
   (\<exists>m'. currentModule (submitTest sample_env None sample_clock ''finalTest'' answered_state)
            = Some m' \<and> finalTestScore m' = 40 \<and> quizzes m' = []) \<and>
   trace (submitTest sample_env None sample_clock ''quiz'' answered_state) =
     [SetDocMerge ''module-1''
        (no_fields\<lparr>d_quizzes := Some [\<lparr>score = 40, date = sample_clock 0\<rparr>],
                   d_lastUpdated := Some (sample_clock 1)\<rparr>)]"
proof -
  have ne: "questions answered_state \<noteq> []"
    and cm: "currentModule answered_state = Some sample_module"
    and qz: "quizzes sample_module = []"
    and tr: "trace answered_state = []"
    and mi: "module_id sample_module = ''module-1''"
    and db: "db_ready sample_env"
    by (simp_all add: sample_defs)
  have q: "currentModule (submitTest sample_env None sample_clock ''quiz'' answered_state) =
     Some (sample_module\<lparr>quizzes := [\<lparr>score = 40, date = sample_clock 0\<rparr>],
                          lastUpdated := sample_clock 1\<rparr>)"
    using ne cm qz by (simp add: submitTest_quiz_module answered_state_score)
  show ?thesis
    using submitTest_records [OF ne cm refl, of sample_env None sample_clock] ne cm qz tr mi db q
    by (simp add: answered_state_score)
qed

text \<open>
  C6. Resetting a module gives \<open>status = started\<close>, empty \<open>assignments\<close>, no quizzes,
  \<open>finalTestScore = 0\<close> and \<open>certificateIssued = false\<close>, and keeps \<open>resources\<close>,
  \<open>teacherPicks\<close> and \<open>assignmentContent\<close>.
\<close>

theorem reset_keeps_content:
  assumes "currentModule s = Some m"
  shows "\<exists>m'. currentModule (resetModuleForRetry ev wr clock s) = Some m' \<and>
           status m' = Started \<and>
           assignments m' = \<lparr>completed = None, responses_given = None\<rparr> \<and>
           quizzes m' = [] \<and>
           finalTestScore m' = 0 \<and>
           certificateIssued m' = False \<and>
           resources m' = resources m \<and>
           teacherPicks m' = teacherPicks m \<and>
           assignmentContent m' = assignmentContent m \<and>
           module_id m' = module_id m \<and> name m' = name m \<and> createdAt m' = createdAt m \<and>
           teacherPicksSt (resetModuleForRetry ev wr clock s) = teacherPicksSt s \<and>
           assignmentContentSt (resetModuleForRetry ev wr clock s) = assignmentContentSt s"
  using assms by (simp add: resetModuleForRetry_def Let_def)

theorem reset_keeps_content_witness:
  "\<exists>m m'. currentModule revisit_state = Some m \<and>
     currentModule (resetModuleForRetry sample_env None sample_clock revisit_state) = Some m' \<and>
     status m = Needs_revisit \<and> status m' = Started \<and>
     quizzes m \<noteq> [] \<and> quizzes m' = [] \<and>
     finalTestScore m = 60 \<and> finalTestScore m' = 0 \<and>
     certificateIssued m' = False \<and>
     assignments m' = \<lparr>completed = None, responses_given = None\<rparr> \<and>
     resources m' = [''notes.pdf''] \<and>
     teacherPicks m' = no_picks \<and>
     assignmentContent m' = Some sample_assignment"
proof -
  obtain m where m: "currentModule revisit_state = Some m"
    and f: "status m = Needs_revisit" "quizzes m \<noteq> []" "finalTestScore m = 60"
      "resources m = [''notes.pdf'']" "teacherPicks m = no_picks"
      "assignmentContent m = Some sample_assignment"
    by (simp add: revisit_state_def sample_defs)
  from reset_keeps_content [OF m, of sample_env None sample_clock] m f
  show ?thesis by auto
qed

section \<open>Section navigation\<close>

lemma next_earlier:
  "on_earlier_section s \<Longrightarrow>
   goToNextAssignmentSection ev wr clock s =
     s\<lparr>currentAssignmentSectionIndex := currentAssignmentSectionIndex s + 1\<rparr>"
  by (simp add: goToNextAssignmentSection_def)

lemma next_iterate:
  "assignmentContentSt s = Some a \<Longrightarrow>
   currentAssignmentSectionIndex s + k < length (sections a) \<Longrightarrow>
   (goToNextAssignmentSection ev wr clock ^^ k) s =
     s\<lparr>currentAssignmentSectionIndex := currentAssignmentSectionIndex s + k\<rparr>"
proof (induction k)
  case 0
  then show ?case by simp
next
  case (Suc k)
  let ?t = "s\<lparr>currentAssignmentSectionIndex := currentAssignmentSectionIndex s + k\<rparr>"
  have "on_earlier_section ?t"
    using Suc.prems by (simp add: on_earlier_section_def)
  then show ?case
    using Suc by (simp add: next_earlier)
qed

lemma next_last:
  "assignmentContentSt s = Some a \<Longrightarrow>
   currentAssignmentSectionIndex s = length (sections a) - 1 \<Longrightarrow>
   currentModule s = Some m \<Longrightarrow>
   goToNextAssignmentSection ev wr clock s =
     complete_assignment ev wr clock ((assignments m)\<lparr>completed := Some True\<rparr>) m s"
  by (simp add: goToNextAssignmentSection_def on_earlier_section_def)

lemma complete_assignment_result:
  "currentModule (complete_assignment ev wr clock ua m s) =
     Some (m\<lparr>assignments := ua, status := Assignment_done, lastUpdated := clock 0\<rparr>)"
  "appPhase (complete_assignment ev wr clock ua m s) = Ph_quiz"
  "currentAssignmentSectionIndex (complete_assignment ev wr clock ua m s) =
     currentAssignmentSectionIndex s"
  "assignmentContentSt (complete_assignment ev wr clock ua m s) = assignmentContentSt s"
  by (simp_all add: complete_assignment_def Let_def)

lemma next_index_bound:
  "assignmentContentSt s = Some a \<Longrightarrow>
   currentAssignmentSectionIndex s < length (sections a) \<Longrightarrow>
   currentAssignmentSectionIndex (goToNextAssignmentSection ev wr clock s) < length (sections a)"
  by (auto simp: goToNextAssignmentSection_def on_earlier_section_def complete_assignment_result
      split: option.splits)

text \<open>
  C8. With an assignment of \<open>n\<close> sections loaded and the current index \<open>i\<close> below \<open>n\<close>:
  "previous" gives \<open>i - 1\<close>, and changes nothing at section 0; after "previous" or "next"
  the index is still below \<open>n\<close>; from section 0, "next" invoked \<open>n - 1\<close> times only moves
  the index to \<open>n - 1\<close>; and "next" on the last section sets \<open>assignments.completed\<close>,
  \<open>status = assignment_done\<close> and the phase \<open>quiz\<close>.
\<close>

theorem section_navigation:
  assumes "assignmentContentSt s = Some a"
    and "n = length (sections a)"
    and "i = currentAssignmentSectionIndex s"
    and "i < n"
  shows "currentAssignmentSectionIndex (goToPreviousAssignmentSection s) = i - 1 \<and>
         (i = 0 \<longrightarrow> goToPreviousAssignmentSection s = s) \<and>
         currentAssignmentSectionIndex (goToPreviousAssignmentSection s) < n \<and>
         currentAssignmentSectionIndex (goToNextAssignmentSection ev wr clock s) < n \<and>
         (i = 0 \<longrightarrow>
            (goToNextAssignmentSection ev wr clock ^^ (n - 1)) s =
              s\<lparr>currentAssignmentSectionIndex := n - 1\<rparr>) \<and>
         (i = n - 1 \<longrightarrow>
            (\<forall>m. currentModule s = Some m \<longrightarrow>
               currentModule (goToNextAssignmentSection ev wr clock s) =
                 Some (m\<lparr>assignments := (assignments m)\<lparr>completed := Some True\<rparr>,
                         status := Assignment_done, lastUpdated := clock 0\<rparr>) \<and>
               appPhase (goToNextAssignmentSection ev wr clock s) = Ph_quiz))"
proof -
  have prev: "currentAssignmentSectionIndex (goToPreviousAssignmentSection s) = i - 1"
    "i = 0 \<longrightarrow> goToPreviousAssignmentSection s = s"
    using assms by (simp_all add: goToPreviousAssignmentSection_def)
  have nxt: "currentAssignmentSectionIndex (goToNextAssignmentSection ev wr clock s) < n"
    using assms next_index_bound by simp
  have iter: "(goToNextAssignmentSection ev wr clock ^^ (n - 1)) s =
              s\<lparr>currentAssignmentSectionIndex := n - 1\<rparr>" if "i = 0"
    using next_iterate [of s a "n - 1" ev wr clock] assms that by simp
  have last: "currentModule (goToNextAssignmentSection ev wr clock s) =
                 Some (m\<lparr>assignments := (assignments m)\<lparr>completed := Some True\<rparr>,
                         status := Assignment_done, lastUpdated := clock 0\<rparr>) \<and>
               appPhase (goToNextAssignmentSection ev wr clock s) = Ph_quiz"
    if "i = n - 1" "currentModule s = Some m" for m
    using assms that by (simp add: next_last complete_assignment_result)
  show ?thesis
    using prev nxt iter last assms by auto
qed

theorem section_navigation_witness:
  "assignmentContentSt assignment_state = Some sample_assignment \<and>
   length (sections sample_assignment) = 3 \<and>
   currentAssignmentSectionIndex assignment_state = 0 \<and>
   goToPreviousAssignmentSection assignment_state = assignment_state \<and>
   (goToNextAssignmentSection sample_env None sample_clock ^^ 2) assignment_state =
     assignment_state\<lparr>currentAssignmentSectionIndex := 2\<rparr> \<and>
   currentModule
     (goToNextAssignmentSection sample_env None sample_clock
        (assignment_state\<lparr>currentAssignmentSectionIndex := 2\<rparr>)) =
     Some (sample_module\<lparr>assignments := \<lparr>completed = Some True, responses_given = None\<rparr>,
                          status := Assignment_done, lastUpdated := sample_clock 0\<rparr>) \<and>
   appPhase
     (goToNextAssignmentSection sample_env None sample_clock
        (assignment_state\<lparr>currentAssignmentSectionIndex := 2\<rparr>)) = Ph_quiz"
proof -
  let ?t = "assignment_state\<lparr>currentAssignmentSectionIndex := 2\<rparr>"
  have a: "assignmentContentSt assignment_state = Some sample_assignment"
    and a2: "assignmentContentSt ?t = Some sample_assignment"
    and n: "3 = length (sections sample_assignment)"
    and i: "0 = currentAssignmentSectionIndex assignment_state"
    and i2: "2 = currentAssignmentSectionIndex ?t"
    and m2: "currentModule ?t = Some sample_module"
    and asg: "assignments sample_module = \<lparr>completed = None, responses_given = None\<rparr>"
    by (simp_all add: assignment_state_def sample_assignment_def sample_defs)
  have "(0::nat) < 3" "(2::nat) < 3" by simp_all
  from section_navigation [OF a n i \<open>0 < 3\<close>, of sample_env None sample_clock]
    section_navigation [OF a2 n i2 \<open>2 < 3\<close>, of sample_env None sample_clock]
    a n i m2 asg
  show ?thesis by (simp add: numeral_2_eq_2)
qed

section \<open>Module creation reads back what it wrote\<close>

lemma merge_teacherPicks:
  "merge_doc (no_fields\<lparr>d_teacherPicks := Some p\<rparr>) d = d\<lparr>d_teacherPicks := Some p\<rparr>"
  by (simp add: merge_doc_def no_fields_def or_else_def)

lemma merge_assignmentContent:
  "merge_doc (no_fields\<lparr>d_assignmentContent := Some c\<rparr>) d = d\<lparr>d_assignmentContent := Some c\<rparr>"
  by (simp add: merge_doc_def no_fields_def or_else_def)

lemma merge_into_nothing: "merge_doc d no_fields = d"
  by (simp add: merge_doc_def no_fields_def or_else_def merge_assignments_def split: option.splits)

lemma content_fields_apart_refl: "content_fields_apart d d"
  by (simp add: content_fields_apart_def)

lemma content_fields_apart_picks:
  "content_fields_apart d d' \<Longrightarrow> content_fields_apart d (d'\<lparr>d_teacherPicks := tp\<rparr>)"
  by (simp add: content_fields_apart_def)

lemma content_fields_apart_content:
  "content_fields_apart d d' \<Longrightarrow> content_fields_apart d (d'\<lparr>d_assignmentContent := ac\<rparr>)"
  by (simp add: content_fields_apart_def)

lemma update_store_picks:
  "store s i = Some d' \<Longrightarrow> content_fields_apart d d' \<Longrightarrow>
   \<exists>d''. store (updateModuleInFirestore ev wr i (no_fields\<lparr>d_teacherPicks := Some p\<rparr>) s) i
           = Some d'' \<and> content_fields_apart d d''"
  by (auto simp: updateModuleInFirestore_def merge_teacherPicks content_fields_apart_picks
      split: option.splits)

lemma update_store_content:
  "store s i = Some d' \<Longrightarrow> content_fields_apart d d' \<Longrightarrow>
   \<exists>d''. store (updateModuleInFirestore ev wr i (no_fields\<lparr>d_assignmentContent := Some c\<rparr>) s) i
           = Some d'' \<and> content_fields_apart d d''"
  by (auto simp: updateModuleInFirestore_def merge_assignmentContent content_fields_apart_content
      split: option.splits)

lemma resource_stage_store:
  assumes "store s i = Some d'" and "content_fields_apart d d'"
  shows "\<exists>d''. store (snd (resource_stage ev r wr nm i s)) i = Some d'' \<and>
               content_fields_apart d d''"
proof (cases r)
  case (Rejected msg)
  then show ?thesis using assms by (simp add: resource_stage_def)
next
  case (Response ok st stt b)
  then show ?thesis
    using assms
    by (auto simp: resource_stage_def Let_def split: option.splits sum.splits
        intro!: update_store_picks)
qed

lemma assignment_stage_store:
  assumes "store s i = Some d'" and "content_fields_apart d d'"
  shows "\<exists>d''. store (snd (assignment_stage ev r wr nm i s)) i = Some d'' \<and>
               content_fields_apart d d''"
proof (cases r)
  case (Rejected msg)
  then show ?thesis using assms by (simp add: assignment_stage_def Let_def split: option.splits)
next
  case (Response ok st stt b)
  then show ?thesis
    using assms
    by (auto simp: assignment_stage_def Let_def split: option.splits sum.splits
        intro!: update_store_content)
qed

lemma resource_stage_module [simp]:
  "currentModule (snd (resource_stage ev r wr nm i s)) = currentModule s"
  by (cases r) (auto simp: resource_stage_def Let_def split: option.splits sum.splits)

lemma assignment_stage_module [simp]:
  "currentModule (snd (assignment_stage ev r wr nm i s)) = currentModule s"
  by (cases r) (auto simp: assignment_stage_def Let_def split: option.splits sum.splits)

lemma resource_stage_moduleD:
  "resource_stage ev r wr nm i s = (e, t) \<Longrightarrow> currentModule t = currentModule s"
  using resource_stage_module [of ev r wr nm i s] by simp

lemma assignment_stage_moduleD:
  "assignment_stage ev r wr nm i s = (e, t) \<Longrightarrow> currentModule t = currentModule s"
  using assignment_stage_module [of ev r wr nm i s] by simp

lemma generateModuleContent_module [simp]:
  "currentModule (generateModuleContent ev r1 w1 r2 w2 nm i s) = currentModule s"
  by (auto simp: generateModuleContent_def Let_def split: option.splits prod.splits
      dest!: resource_stage_moduleD assignment_stage_moduleD)

lemma generateModuleContent_store:
  assumes "store s i = Some d"
  shows "\<exists>d'. store (generateModuleContent ev r1 w1 r2 w2 nm i s) i = Some d' \<and>
              content_fields_apart d d'"
proof (cases "falsy (geminiApiKey ev)")
  case True
  then show ?thesis
    using assms by (simp add: generateModuleContent_def Let_def content_fields_apart_refl)
next
  case False
  let ?s1 = "s\<lparr>loading := True, errorMessage := []\<rparr>"
  obtain e t where rs: "resource_stage ev r1 w1 nm i ?s1 = (e, t)" by force
  have "store ?s1 i = Some d" using assms by simp
  from resource_stage_store [OF this content_fields_apart_refl, of ev r1 w1 nm]
  obtain d1 where d1: "store t i = Some d1" "content_fields_apart d d1"
    using rs by auto
  show ?thesis
  proof (cases e)
    case None
    obtain e' t' where as: "assignment_stage ev r2 w2 nm i t = (e', t')" by force
    from assignment_stage_store [OF d1, of ev r2 w2 nm]
    obtain d2 where "store t' i = Some d2" "content_fields_apart d d2"
      using as by auto
    then show ?thesis
      using False rs None as
      by (auto simp: generateModuleContent_def Let_def split: option.splits)
  next
    case (Some err)
    then show ?thesis
      using False rs d1 by (auto simp: generateModuleContent_def Let_def)
  qed
qed

lemma module_of_content_fields_apart:
  "content_fields_apart ((doc_of_module m)\<lparr>d_id := None\<rparr>) d' \<Longrightarrow>
   module_of_doc i d' = None \<or>
   (\<exists>m'. module_of_doc i d' = Some m' \<and> status m' = status m \<and>
         certificateIssued m' = certificateIssued m)"
  by (auto simp: content_fields_apart_def module_of_doc_def doc_of_module_def
      split: option.splits)

lemma createNewModule_module:
  "currentModule (createNewModule ev nowMs clock ce r1 w1 r2 w2 re s) = currentModule s \<or>
   (\<exists>m'. currentModule (createNewModule ev nowMs clock ce r1 w1 r2 w2 re s) = Some m' \<and>
         status m' = Started \<and> \<not> certificateIssued m')"
proof -
  let ?i = "''module-'' @ digits nowMs"
  let ?m = "newModuleData ?i (topic s) clock"
  let ?d = "(doc_of_module ?m)\<lparr>d_id := None\<rparr>"
  let ?s2 = "s\<lparr>loading := True, errorMessage := [], trace := trace s @ [SetDoc ?i ?d],
               store := (store s)(?i \<mapsto> ?d), currentModule := Some ?m,
               appPhase := Ph_assignment, topic := []\<rparr>"
  let ?s3 = "generateModuleContent ev r1 w1 r2 w2 (name ?m) ?i ?s2"
  have st: "status ?m = Started" "\<not> certificateIssued ?m"
    by (simp_all add: newModuleData_def)
  have "store ?s2 ?i = Some ?d" by simp
  from generateModuleContent_store [OF this, of ev r1 w1 r2 w2 "name ?m"]
  obtain d' where d': "store ?s3 ?i = Some d'" "content_fields_apart ?d d'"
    by auto
  have cm3: "currentModule ?s3 = Some ?m" by simp
  from module_of_content_fields_apart [OF d'(2), of ?i] st
  have "module_of_doc ?i d' = None \<or>
        (\<exists>m'. module_of_doc ?i d' = Some m' \<and> status m' = Started \<and> \<not> certificateIssued m')"
    by auto
  then show ?thesis
    using d'(1) cm3 st
    by (auto simp: createNewModule_def Let_def split: option.splits)
qed

section \<open>The document that module creation reads back is complete\<close>

lemma update_content_set:
  "store s i = Some d \<Longrightarrow> content_fields_set d \<Longrightarrow>
   \<exists>d'. store (updateModuleInFirestore ev wr i data s) i = Some d' \<and> content_fields_set d'"
  by (auto simp: updateModuleInFirestore_def content_fields_set_def merge_doc_def or_else_def
      split: option.splits)

lemma resource_stage_content_set:
  assumes "store s i = Some d" and "content_fields_set d"
  shows "\<exists>d'. store (snd (resource_stage ev r wr nm i s)) i = Some d' \<and> content_fields_set d'"
proof (cases r)
  case (Rejected msg)
  then show ?thesis using assms by (simp add: resource_stage_def)
next
  case (Response ok st stt b)
  then show ?thesis
    using assms
    by (auto simp: resource_stage_def Let_def split: option.splits sum.splits
        intro!: update_content_set)
qed

lemma assignment_stage_content_set:
  assumes "store s i = Some d" and "content_fields_set d"
  shows "\<exists>d'. store (snd (assignment_stage ev r wr nm i s)) i = Some d' \<and> content_fields_set d'"
proof (cases r)
  case (Rejected msg)
  then show ?thesis using assms by (simp add: assignment_stage_def Let_def split: option.splits)
next
  case (Response ok st stt b)
  then show ?thesis
    using assms
    by (auto simp: assignment_stage_def Let_def split: option.splits sum.splits
        intro!: update_content_set)
qed

lemma generateModuleContent_content_set:
  assumes "store s i = Some d" and "content_fields_set d"
  shows "\<exists>d'. store (generateModuleContent ev r1 w1 r2 w2 nm i s) i = Some d' \<and>
              content_fields_set d'"
proof (cases "falsy (geminiApiKey ev)")
  case True
  then show ?thesis
    using assms by (simp add: generateModuleContent_def Let_def)
next
  case False
  let ?s1 = "s\<lparr>loading := True, errorMessage := []\<rparr>"
  obtain e t where rs: "resource_stage ev r1 w1 nm i ?s1 = (e, t)" by force
  have "store ?s1 i = Some d" using assms by simp
  from resource_stage_content_set [OF this assms(2), of ev r1 w1 nm]
  obtain d1 where d1: "store t i = Some d1" "content_fields_set d1"
    using rs by auto
  show ?thesis
  proof (cases e)
    case None
    obtain e' t' where as: "assignment_stage ev r2 w2 nm i t = (e', t')" by force
    from assignment_stage_content_set [OF d1, of ev r2 w2 nm]
    obtain d2 where "store t' i = Some d2" "content_fields_set d2"
      using as by auto
    then show ?thesis
      using False rs None as
      by (auto simp: generateModuleContent_def Let_def split: option.splits)
  next
    case (Some err)
    then show ?thesis
      using False rs d1 by (auto simp: generateModuleContent_def Let_def)
  qed
qed

lemma module_of_complete_doc:
  "content_fields_apart ((doc_of_module m)\<lparr>d_id := None\<rparr>) d' \<Longrightarrow> content_fields_set d' \<Longrightarrow>
   \<exists>m'. module_of_doc i d' = Some m' \<and> module_id m' = i \<and> name m' = name m \<and>
        status m' = status m \<and> certificateIssued m' = certificateIssued m \<and>
        quizzes m' = quizzes m \<and> finalTestScore m' = finalTestScore m"
  by (auto simp: content_fields_apart_def content_fields_set_def module_of_doc_def
      doc_of_module_def split: option.splits)

lemma createNewModule_reads_back:
  assumes "\<not> blank (topic s)" and "db_ready ev" and "\<not> falsy (geminiApiKey ev)"
  shows "\<exists>m'. currentModule
               (createNewModule ev nowMs clock None r1 w1 r2 w2 None s) = Some m' \<and>
              module_id m' = ''module-'' @ digits nowMs \<and> name m' = topic s \<and>
              status m' = Started \<and> \<not> certificateIssued m' \<and> quizzes m' = [] \<and>
              finalTestScore m' = 0"
proof -
  let ?i = "''module-'' @ digits nowMs"
  let ?m = "newModuleData ?i (topic s) clock"
  let ?d = "(doc_of_module ?m)\<lparr>d_id := None\<rparr>"
  let ?s2 = "s\<lparr>loading := True, errorMessage := [], trace := trace s @ [SetDoc ?i ?d],
               store := (store s)(?i \<mapsto> ?d), currentModule := Some ?m,
               appPhase := Ph_assignment, topic := []\<rparr>"
  let ?s3 = "generateModuleContent ev r1 w1 r2 w2 (name ?m) ?i ?s2"
  have st: "store ?s2 ?i = Some ?d" by simp
  have cs: "content_fields_set ?d" by (simp add: content_fields_set_def doc_of_module_def)
  from generateModuleContent_store [OF st, of ev r1 w1 r2 w2 "name ?m"]
  obtain d' where d': "store ?s3 ?i = Some d'" "content_fields_apart ?d d'"
    by auto
  from generateModuleContent_content_set [OF st cs, of ev r1 w1 r2 w2 "name ?m"] d'(1)
  have "content_fields_set d'" by simp
  from module_of_complete_doc [OF d'(2) this, of ?i]
  obtain m' where "module_of_doc ?i d' = Some m'" "module_id m' = ?i" "name m' = topic s"
    "status m' = Started" "\<not> certificateIssued m'" "quizzes m' = []" "finalTestScore m' = 0"
    by (auto simp: newModuleData_def)
  then show ?thesis
    using assms d'(1) by (simp add: createNewModule_def Let_def)
qed

section \<open>The sample run\<close>

lemma generateTest_module [simp]:
  "currentModule (generateTest ev r ty s) = currentModule s"
  by (cases r)
    (auto simp: generateTest_def Let_def split: option.splits sum.splits)

lemma created_state_module:
  "currentModule created_state = Some (sample_module\<lparr>teacherPicks := no_picks\<rparr>)"
  by (simp add: created_state_def createNewModule_def quiz_env_def sample_defs blank_def
      is_space_def falsy_def digits.simps Let_def generateModuleContent_def resource_stage_def
      assignment_stage_def no_candidates_def first_part_def updateModuleInFirestore_def
      merge_teacherPicks doc_of_module_def module_of_doc_def)

lemma generateTest_sample:
  "currentModule s \<noteq> None \<Longrightarrow>
   questions (generateTest quiz_env malformed_reply ty s) = sample_questions \<and>
   userAnswers (generateTest quiz_env malformed_reply ty s) = Map.empty"
  by (auto simp: generateTest_def quiz_env_def sample_env_def falsy_def malformed_reply_def
      first_part_def Let_def split: option.splits)

section \<open>Generation without a credential\<close>

text \<open>
  C9, as amended. When the credential is missing, \<open>generateModuleContent\<close> ends with
  the configuration message and \<open>loading\<close> off, and \<open>generateTest\<close> ends with the
  configuration message if a module is selected and with the request to select one if
  none is; neither issues a service request or a write, and nothing else changes.
\<close>

theorem missing_key_aborts:
  assumes "falsy (geminiApiKey ev)"
  shows "generateModuleContent ev r1 w1 r2 w2 moduleName moduleId s =
           s\<lparr>loading := False, errorMessage := key_missing\<rparr> \<and>
         generateTest ev r ty s =
           s\<lparr>errorMessage :=
                (if currentModule s = None then ''Please select or create a module first.''
                 else key_missing)\<rparr> \<and>
         trace (generateModuleContent ev r1 w1 r2 w2 moduleName moduleId s) = trace s \<and>
         store (generateModuleContent ev r1 w1 r2 w2 moduleName moduleId s) = store s \<and>
         trace (generateTest ev r ty s) = trace s \<and>
         store (generateTest ev r ty s) = store s"
  using assms
  by (auto simp: generateModuleContent_def generateTest_def Let_def split: option.splits)

theorem missing_key_aborts_witness:
  "falsy (geminiApiKey keyless_env) \<and>
   currentModule answered_state \<noteq> None \<and>
   errorMessage (generateModuleContent keyless_env no_candidates None no_candidates None
                   ''Graph Theory Basics'' ''module-1'' answered_state) = key_missing \<and>
   errorMessage (generateTest keyless_env no_candidates ''quiz'' answered_state) = key_missing \<and>
   trace (generateModuleContent keyless_env no_candidates None no_candidates None
            ''Graph Theory Basics'' ''module-1'' answered_state) = [] \<and>
   trace (generateTest keyless_env no_candidates ''quiz'' answered_state) = []"
proof -
  have k: "falsy (geminiApiKey keyless_env)"
    by (simp add: keyless_env_def sample_env_def falsy_def)
  have c: "currentModule answered_state \<noteq> None" and t: "trace answered_state = []"
    by (simp_all add: sample_defs)
  from missing_key_aborts [OF k, of no_candidates None no_candidates None
      "''Graph Theory Basics''" "''module-1''" answered_state no_candidates "''quiz''"] k c t
  show ?thesis by simp
qed

text \<open>
  With no module selected, \<open>generateTest\<close> returns before it looks at the credential:
  the message is not the configuration message.
\<close>

theorem missing_key_other_message:
  "falsy (geminiApiKey keyless_env) \<and>
   errorMessage (generateTest keyless_env no_candidates ''quiz'' initial_state) =
     ''Please select or create a module first.'' \<and>
   errorMessage (generateTest keyless_env no_candidates ''quiz'' initial_state) \<noteq> key_missing"
  by (simp add: keyless_env_def sample_env_def falsy_def generateTest_def initial_state_def
      key_missing_def)

section \<open>The assignment request\<close>

lemma resource_stage_no_assignment:
  "resource_stage ev r wr nm i s = (e, t) \<Longrightarrow>
   assignmentContentSt t = assignmentContentSt s \<and>
   (\<forall>x \<in> set (trace t) - set (trace s).
      x = ServiceRequest (ResourceListRequest nm) \<or>
      (\<exists>p. x = SetDocMerge i (no_fields\<lparr>d_teacherPicks := Some p\<rparr>)))"
  by (cases r)
    (auto simp: resource_stage_def Let_def updateModuleInFirestore_def
      split: option.splits sum.splits if_splits)

text \<open>
  C2. With the credential present and no global \<open>payload\<close>, the call throws while it
  builds the assignment request: the argument \<open>JSON.stringify(payload)\<close> names a
  variable that is declared nowhere (the request object is \<open>assignmentPayload\<close>). The
  \<open>catch\<close> block then leaves \<open>assignmentContent\<close> null and \<open>teacherPicks\<close> empty, and the
  only calls issued are the resource-list request and the write of \<open>teacherPicks\<close>: no
  assignment, generated or fallback, is ever stored.
\<close>

theorem payload_unbound:
  assumes "\<not> falsy (geminiApiKey ev)" and "window_payload ev = None"
    and "s' = generateModuleContent ev r1 w1 r2 w2 moduleName moduleId s"
  shows "assignmentContentSt s' = None \<and>
         teacherPicksSt s' = [] \<and>
         (\<forall>x \<in> set (trace s') - set (trace s).
            x = ServiceRequest (ResourceListRequest moduleName) \<or>
            (\<exists>p. x = SetDocMerge moduleId (no_fields\<lparr>d_teacherPicks := Some p\<rparr>)))"
proof -
  let ?s1 = "s\<lparr>loading := True, errorMessage := []\<rparr>"
  obtain e t where rs: "resource_stage ev r1 w1 moduleName moduleId ?s1 = (e, t)" by force
  from resource_stage_no_assignment [OF rs]
  have tr: "\<forall>x \<in> set (trace t) - set (trace s).
      x = ServiceRequest (ResourceListRequest moduleName) \<or>
      (\<exists>p. x = SetDocMerge moduleId (no_fields\<lparr>d_teacherPicks := Some p\<rparr>))"
    by simp
  show ?thesis
  proof (cases e)
    case None
    then show ?thesis
      using assms rs tr by (simp add: generateModuleContent_def Let_def assignment_stage_def)
  next
    case (Some err)
    then show ?thesis
      using assms rs tr by (simp add: generateModuleContent_def Let_def)
  qed
qed

theorem payload_unbound_witness:
  "\<not> falsy (geminiApiKey sample_env) \<and> window_payload sample_env = None \<and>
   assignmentContentSt
     (generateModuleContent sample_env malformed_reply None malformed_reply None
        ''Graph Theory Basics'' ''module-1'' initial_state) = None \<and>
   teacherPicksSt
     (generateModuleContent sample_env malformed_reply None malformed_reply None
        ''Graph Theory Basics'' ''module-1'' initial_state) = [] \<and>
   trace
     (generateModuleContent sample_env malformed_reply None malformed_reply None
        ''Graph Theory Basics'' ''module-1'' initial_state) =
     [ServiceRequest (ResourceListRequest ''Graph Theory Basics''),
      SetDocMerge ''module-1'' (no_fields\<lparr>d_teacherPicks := Some malformed_picks\<rparr>)] \<and>
   errorMessage
     (generateModuleContent sample_env malformed_reply None malformed_reply None
        ''Graph Theory Basics'' ''module-1'' initial_state) =
     ''Failed to generate module content: payload is not defined. Ensure your API key is valid.''"
proof -
  have k: "\<not> falsy (geminiApiKey sample_env)" and p: "window_payload sample_env = None"
    by (simp_all add: sample_env_def falsy_def)
  have ev: "trace
     (generateModuleContent sample_env malformed_reply None malformed_reply None
        ''Graph Theory Basics'' ''module-1'' initial_state) =
     [ServiceRequest (ResourceListRequest ''Graph Theory Basics''),
      SetDocMerge ''module-1'' (no_fields\<lparr>d_teacherPicks := Some malformed_picks\<rparr>)]"
    "errorMessage
     (generateModuleContent sample_env malformed_reply None malformed_reply None
        ''Graph Theory Basics'' ''module-1'' initial_state) =
     ''Failed to generate module content: payload is not defined. Ensure your API key is valid.''"
    by (simp_all add: generateModuleContent_def resource_stage_def assignment_stage_def
        sample_env_def falsy_def malformed_reply_def first_part_def initial_state_def
        updateModuleInFirestore_def Let_def)
  from payload_unbound [OF k p refl, of malformed_reply None malformed_reply None
      "''Graph Theory Basics''" "''module-1''" initial_state] k p ev
  show ?thesis by simp
qed

section \<open>The two requests of content generation\<close>

lemma resource_stage_rejected:
  "resource_stage ev (Rejected msg) wr nm i s =
     (Some (Error msg), s\<lparr>trace := trace s @ [ServiceRequest (ResourceListRequest nm)]\<rparr>)"
  by (simp add: resource_stage_def)

lemma resource_stage_response:
  assumes "db_ready ev" and "resource_stage ev (Response ok st stt b) wr nm i s = (e, t)"
  shows "e = None \<and>
         trace t = trace s @ [ServiceRequest (ResourceListRequest nm),
                              SetDocMerge i (no_fields\<lparr>d_teacherPicks := Some (parsedResources ev b)\<rparr>)] \<and>
         teacherPicksSt t = parsedResources ev b \<and>
         assignmentContentSt t = assignmentContentSt s \<and>
         (wr = None \<longrightarrow> (\<exists>d. store t i = Some d \<and> d_teacherPicks d = Some (parsedResources ev b)))"
  using assms
  by (auto simp: resource_stage_def parsedResources_def Let_def updateModuleInFirestore_def
      merge_teacherPicks split: option.splits sum.splits)

lemma assignment_stage_cases:
  assumes "db_ready ev" and "assignment_stage ev r wr nm i t = (e, u)"
  shows "(e \<noteq> None \<and> store u = store t \<and>
          (trace u = trace t \<or> (\<exists>body. trace u = trace t @ [ServiceRequest (AssignmentRequest body)]))) \<or>
         (e = None \<and> teacherPicksSt u = teacherPicksSt t \<and>
          (\<exists>body a. trace u = trace t @ [ServiceRequest (AssignmentRequest body),
                                         SetDocMerge i (no_fields\<lparr>d_assignmentContent := Some (Some a)\<rparr>)] \<and>
                    assignmentContentSt u = Some a) \<and>
          (\<forall>d. store t i = Some d \<longrightarrow>
               (\<exists>d'. store u i = Some d' \<and> d_teacherPicks d' = d_teacherPicks d)))"
proof (cases "window_payload ev")
  case None
  then show ?thesis using assms by (auto simp: assignment_stage_def)
next
  case (Some body)
  show ?thesis
  proof (cases r)
    case (Rejected msg)
    then show ?thesis using assms Some by (auto simp: assignment_stage_def Let_def)
  next
    case (Response ok st stt b)
    then show ?thesis
      using assms Some
      by (auto simp: assignment_stage_def Let_def updateModuleInFirestore_def
          merge_assignmentContent split: option.splits sum.splits if_splits)
  qed
qed

text \<open>
  C3, as amended. With the credential present the two requests run one after the other
  inside one \<open>try\<close> block. A rejected resource-list request ends the call: no assignment
  request is issued, nothing is written, and \<open>teacherPicks\<close> and \<open>assignmentContent\<close> end
  empty and null. When the resource-list request is answered, its result is written at
  once by a merge write that carries \<open>teacherPicks\<close> only, before anything of the
  assignment; what follows is nothing, an assignment request alone (then \<open>teacherPicks\<close>
  and \<open>assignmentContent\<close> end empty and null in memory), or an assignment request with
  a merge write that carries \<open>assignmentContent\<close> only. In each case the stored
  \<open>teacherPicks\<close> stay as written.
\<close>

theorem requests_in_sequence:
  assumes "\<not> falsy (geminiApiKey ev)"
    and "s' = generateModuleContent ev r1 w1 r2 w2 moduleName moduleId s"
  shows "(\<forall>msg. r1 = Rejected msg \<longrightarrow>
            trace s' = trace s @ [ServiceRequest (ResourceListRequest moduleName)] \<and>
            store s' = store s \<and> teacherPicksSt s' = [] \<and> assignmentContentSt s' = None) \<and>
         (\<forall>ok st stt b. r1 = Response ok st stt b \<and> db_ready ev \<longrightarrow>
            (\<exists>rest.
               trace s' =
                 trace s @
                 [ServiceRequest (ResourceListRequest moduleName),
                  SetDocMerge moduleId
                    (no_fields\<lparr>d_teacherPicks := Some (parsedResources ev b)\<rparr>)] @ rest \<and>
               ((rest = [] \<or> (\<exists>body. rest = [ServiceRequest (AssignmentRequest body)])) \<and>
                teacherPicksSt s' = [] \<and> assignmentContentSt s' = None \<or>
                (\<exists>body a.
                   rest = [ServiceRequest (AssignmentRequest body),
                           SetDocMerge moduleId
                             (no_fields\<lparr>d_assignmentContent := Some (Some a)\<rparr>)] \<and>
                   assignmentContentSt s' = Some a \<and>
                   teacherPicksSt s' = parsedResources ev b))) \<and>
            (w1 = None \<longrightarrow>
               (\<exists>d. store s' moduleId = Some d \<and>
                    d_teacherPicks d = Some (parsedResources ev b))))"
proof -
  have first: "trace s' = trace s @ [ServiceRequest (ResourceListRequest moduleName)] \<and>
            store s' = store s \<and> teacherPicksSt s' = [] \<and> assignmentContentSt s' = None"
    if "r1 = Rejected msg" for msg
    using assms that by (simp add: generateModuleContent_def Let_def resource_stage_rejected)
  have second: "(\<exists>rest.
               trace s' =
                 trace s @
                 [ServiceRequest (ResourceListRequest moduleName),
                  SetDocMerge moduleId
                    (no_fields\<lparr>d_teacherPicks := Some (parsedResources ev b)\<rparr>)] @ rest \<and>
               ((rest = [] \<or> (\<exists>body. rest = [ServiceRequest (AssignmentRequest body)])) \<and>
                teacherPicksSt s' = [] \<and> assignmentContentSt s' = None \<or>
                (\<exists>body a.
                   rest = [ServiceRequest (AssignmentRequest body),
                           SetDocMerge moduleId
                             (no_fields\<lparr>d_assignmentContent := Some (Some a)\<rparr>)] \<and>
                   assignmentContentSt s' = Some a \<and>
                   teacherPicksSt s' = parsedResources ev b))) \<and>
            (w1 = None \<longrightarrow>
               (\<exists>d. store s' moduleId = Some d \<and>
                    d_teacherPicks d = Some (parsedResources ev b)))"
    if a: "r1 = Response ok st stt b \<and> db_ready ev" for ok st stt b
  proof -
  let ?s1 = "s\<lparr>loading := True, errorMessage := []\<rparr>"
  obtain e t where rs: "resource_stage ev (Response ok st stt b) w1 moduleName moduleId ?s1 = (e, t)"
    by force
  from resource_stage_response [OF _ rs] a
  have t: "e = None"
    "trace t = trace s @ [ServiceRequest (ResourceListRequest moduleName),
                              SetDocMerge moduleId (no_fields\<lparr>d_teacherPicks := Some (parsedResources ev b)\<rparr>)]"
    "teacherPicksSt t = parsedResources ev b"
    "w1 = None \<longrightarrow> (\<exists>d. store t moduleId = Some d \<and> d_teacherPicks d = Some (parsedResources ev b))"
    by simp_all
  obtain e' u where as: "assignment_stage ev r2 w2 moduleName moduleId t = (e', u)" by force
  have s': "s' = (case e' of None \<Rightarrow> u
                  | Some err \<Rightarrow> u\<lparr>errorMessage :=
                              ''Failed to generate module content: '' @ message err @
                              ''. Ensure your API key is valid.'',
                            teacherPicksSt := [],
                            assignmentContentSt := None\<rparr>)\<lparr>loading := False\<rparr>"
    using assms a rs as t(1) by (simp add: generateModuleContent_def Let_def)
  from assignment_stage_cases [OF _ as] a
  consider (failed) "e' \<noteq> None" "store u = store t"
      "trace u = trace t \<or> (\<exists>body. trace u = trace t @ [ServiceRequest (AssignmentRequest body)])"
    | (succeeded) "e' = None" "teacherPicksSt u = teacherPicksSt t"
      "\<exists>body a. trace u = trace t @ [ServiceRequest (AssignmentRequest body),
                                         SetDocMerge moduleId (no_fields\<lparr>d_assignmentContent := Some (Some a)\<rparr>)] \<and>
                    assignmentContentSt u = Some a"
      "\<forall>d. store t moduleId = Some d \<longrightarrow>
               (\<exists>d'. store u moduleId = Some d' \<and> d_teacherPicks d' = d_teacherPicks d)"
    by auto
  then have "(\<exists>rest.
               trace s' =
                 trace s @
                 [ServiceRequest (ResourceListRequest moduleName),
                  SetDocMerge moduleId
                    (no_fields\<lparr>d_teacherPicks := Some (parsedResources ev b)\<rparr>)] @ rest \<and>
               ((rest = [] \<or> (\<exists>body. rest = [ServiceRequest (AssignmentRequest body)])) \<and>
                teacherPicksSt s' = [] \<and> assignmentContentSt s' = None \<or>
                (\<exists>body a.
                   rest = [ServiceRequest (AssignmentRequest body),
                           SetDocMerge moduleId
                             (no_fields\<lparr>d_assignmentContent := Some (Some a)\<rparr>)] \<and>
                   assignmentContentSt s' = Some a \<and>
                   teacherPicksSt s' = parsedResources ev b)))"
  proof cases
    case failed
    then obtain err where "e' = Some err" by auto
    then show ?thesis using failed s' t by auto
  next
    case succeeded
    then show ?thesis using s' t by auto
  qed
  moreover have "w1 = None \<longrightarrow>
               (\<exists>d. store s' moduleId = Some d \<and>
                    d_teacherPicks d = Some (parsedResources ev b))"
  proof
    assume "w1 = None"
    then obtain d where d: "store t moduleId = Some d" "d_teacherPicks d = Some (parsedResources ev b)"
      using t(4) by auto
    have "\<exists>d'. store u moduleId = Some d' \<and> d_teacherPicks d' = d_teacherPicks d"
      using assignment_stage_cases [OF _ as] a d by auto
    moreover have "store s' = store u" using s' by (simp split: option.splits)
    ultimately show "\<exists>d. store s' moduleId = Some d \<and>
                    d_teacherPicks d = Some (parsedResources ev b)"
      using d by auto
  qed
  ultimately show ?thesis
    by simp
  qed
  show ?thesis using first second by blast
qed

lemma bound_env_run:
  "generateModuleContent bound_env malformed_reply None malformed_reply None
     ''Graph Theory Basics'' ''module-1'' initial_state =
   initial_state
     \<lparr>teacherPicksSt := sample_picks,
      assignmentContentSt := Some sample_assignment,
      store := [''module-1'' \<mapsto>
                  no_fields\<lparr>d_teacherPicks := Some sample_picks,
                            d_assignmentContent := Some (Some sample_assignment)\<rparr>],
      trace := [ServiceRequest (ResourceListRequest ''Graph Theory Basics''),
                SetDocMerge ''module-1'' (no_fields\<lparr>d_teacherPicks := Some sample_picks\<rparr>),
                ServiceRequest (AssignmentRequest ''{}''),
                SetDocMerge ''module-1''
                  (no_fields\<lparr>d_assignmentContent := Some (Some sample_assignment)\<rparr>)]\<rparr>"
  by (simp add: generateModuleContent_def resource_stage_def assignment_stage_def bound_env_def
      sample_env_def falsy_def malformed_reply_def first_part_def initial_state_def
      updateModuleInFirestore_def merge_teacherPicks merge_assignmentContent merge_into_nothing
      Let_def)

theorem requests_in_sequence_witness:
  "\<not> falsy (geminiApiKey bound_env) \<and> db_ready bound_env \<and>
   trace (generateModuleContent bound_env (Rejected ''Failed to fetch'') None malformed_reply None
            ''Graph Theory Basics'' ''module-1'' initial_state) =
     [ServiceRequest (ResourceListRequest ''Graph Theory Basics'')] \<and>
   trace (generateModuleContent bound_env malformed_reply None malformed_reply None
            ''Graph Theory Basics'' ''module-1'' initial_state) =
     [ServiceRequest (ResourceListRequest ''Graph Theory Basics''),
      SetDocMerge ''module-1'' (no_fields\<lparr>d_teacherPicks := Some sample_picks\<rparr>),
      ServiceRequest (AssignmentRequest ''{}''),
      SetDocMerge ''module-1''
        (no_fields\<lparr>d_assignmentContent := Some (Some sample_assignment)\<rparr>)] \<and>
   (\<exists>d. store (generateModuleContent bound_env malformed_reply None malformed_reply None
                   ''Graph Theory Basics'' ''module-1'' initial_state) ''module-1'' = Some d \<and>
        d_teacherPicks d = Some sample_picks)"
proof -
  have k: "\<not> falsy (geminiApiKey bound_env)" and db: "db_ready bound_env"
    by (simp_all add: bound_env_def sample_env_def falsy_def)
  have t0: "trace initial_state = []" by (simp add: initial_state_def)
  have p: "parsedResources bound_env
             \<lparr>candidates = Some [Candidate (Some (Content (Some [Part (Some ''not json'')])))],
              api_error = None\<rparr> = sample_picks"
    by (simp add: parsedResources_def first_part_def bound_env_def)
  note a = requests_in_sequence [OF k refl, of "Rejected ''Failed to fetch''" None malformed_reply
      None "''Graph Theory Basics''" "''module-1''" initial_state]
  note b = requests_in_sequence [OF k refl, of malformed_reply None malformed_reply
      None "''Graph Theory Basics''" "''module-1''" initial_state]
  have "trace (generateModuleContent bound_env (Rejected ''Failed to fetch'') None malformed_reply
            None ''Graph Theory Basics'' ''module-1'' initial_state) =
     [ServiceRequest (ResourceListRequest ''Graph Theory Basics'')]"
    using a t0 by simp
  moreover have "\<exists>d. store (generateModuleContent bound_env malformed_reply None malformed_reply
                   None ''Graph Theory Basics'' ''module-1'' initial_state) ''module-1'' = Some d \<and>
        d_teacherPicks d = Some sample_picks"
  proof -
    let ?b = "\<lparr>candidates = Some [Candidate (Some (Content (Some [Part (Some ''not json'')])))],
              api_error = None\<rparr>"
    have r: "malformed_reply = Response True 200 ''OK'' ?b"
      by (simp add: malformed_reply_def)
    from b have "malformed_reply = Response True 200 ''OK'' ?b \<and> db_ready bound_env \<longrightarrow>
        ((None :: string option) = None \<longrightarrow>
           (\<exists>d. store (generateModuleContent bound_env malformed_reply None malformed_reply
                   None ''Graph Theory Basics'' ''module-1'' initial_state) ''module-1'' = Some d \<and>
                d_teacherPicks d = Some (parsedResources bound_env ?b)))"
      by blast
    then show ?thesis using r db p by simp
  qed
  ultimately show ?thesis
    using k db by (simp add: bound_env_run)
qed

text \<open>
  The requests are not independent. A rejected resource-list request blocks the assignment
  request, although the service would have answered it; and a rejected assignment request
  empties the \<open>teacherPicks\<close> that had been obtained, although the write of them stays.
\<close>

theorem resource_failure_blocks_assignment:
  "(\<forall>body.
      ServiceRequest (AssignmentRequest body) \<notin>
        set (trace (generateModuleContent bound_env (Rejected ''Failed to fetch'') None
                      malformed_reply None ''Graph Theory Basics'' ''module-1''
                      initial_state))) \<and>
   assignmentContentSt
     (generateModuleContent bound_env (Rejected ''Failed to fetch'') None malformed_reply None
        ''Graph Theory Basics'' ''module-1'' initial_state) = None \<and>
   assignmentContentSt
     (generateModuleContent bound_env malformed_reply None malformed_reply None
        ''Graph Theory Basics'' ''module-1'' initial_state) = Some sample_assignment \<and>
   teacherPicksSt
     (generateModuleContent bound_env malformed_reply None (Rejected ''Failed to fetch'') None
        ''Graph Theory Basics'' ''module-1'' initial_state) = [] \<and>
   teacherPicksSt
     (generateModuleContent bound_env malformed_reply None malformed_reply None
        ''Graph Theory Basics'' ''module-1'' initial_state) = sample_picks \<and>
   sample_picks \<noteq> []"
proof -
  have "generateModuleContent bound_env (Rejected ''Failed to fetch'') None malformed_reply None
          ''Graph Theory Basics'' ''module-1'' initial_state =
        initial_state
          \<lparr>errorMessage :=
             ''Failed to generate module content: Failed to fetch. Ensure your API key is valid.'',
           trace := [ServiceRequest (ResourceListRequest ''Graph Theory Basics'')]\<rparr>"
    by (simp add: generateModuleContent_def resource_stage_def bound_env_def sample_env_def
        falsy_def initial_state_def Let_def)
  moreover have "teacherPicksSt
     (generateModuleContent bound_env malformed_reply None (Rejected ''Failed to fetch'') None
        ''Graph Theory Basics'' ''module-1'' initial_state) = []"
    by (simp add: generateModuleContent_def resource_stage_def assignment_stage_def bound_env_def
        sample_env_def falsy_def malformed_reply_def first_part_def initial_state_def
        updateModuleInFirestore_def Let_def)
  ultimately show ?thesis
    by (simp add: bound_env_run) (simp add: initial_state_def sample_picks_def)
qed

section \<open>Status changes\<close>

text \<open>
  As written, \<open>addResource\<close> throws at once and sets nothing, so it is not among the
  operations below.
\<close>

lemma addResource_throws:
  "addResource ev wr clock s = (Some (TypeError ''Cannot read properties of undefined''), s)"
  by (simp add: addResource_def resourceInput_def)

lemma handleAssignmentResponseChange_module [simp]:
  "currentModule (handleAssignmentResponseChange sec tsk v s) = currentModule s"
  by (simp add: handleAssignmentResponseChange_def)

lemma handleAnswerChange_module [simp]:
  "currentModule (handleAnswerChange i opt s) = currentModule s"
  by (simp add: handleAnswerChange_def)

lemma goToPrevious_module [simp]:
  "currentModule (goToPreviousAssignmentSection s) = currentModule s"
  by (simp add: goToPreviousAssignmentSection_def)

lemma goToNext_module:
  "currentModule s = Some m \<Longrightarrow>
   currentModule (goToNextAssignmentSection ev wr clock s) =
     (if on_earlier_section s then Some m
      else Some (m\<lparr>assignments := (assignments m)\<lparr>completed := Some True\<rparr>,
                   status := Assignment_done, lastUpdated := clock 0\<rparr>))"
  by (simp add: goToNextAssignmentSection_def complete_assignment_result)

lemma submitAssignment_module:
  "currentModule s = Some m \<Longrightarrow>
   currentModule (submitAssignment ev wr clock s) =
     (if assignmentContentSt s = None then Some m
      else Some (m\<lparr>assignments := (assignments m)\<lparr>completed := Some True,
                                   responses_given := Some (assignmentResponses s)\<rparr>,
                   status := Assignment_done, lastUpdated := clock 0\<rparr>))"
  by (simp add: submitAssignment_def complete_assignment_result)

lemma submitTest_module:
  "currentModule s = Some m \<Longrightarrow>
   currentModule (submitTest ev wr clock ty s) =
     (if questions s = [] then Some m
      else if ty = ''quiz'' then
        Some (m\<lparr>quizzes := quizzes m @
                   [\<lparr>score = calculatedScore (questions s) (userAnswers s), date = clock 0\<rparr>],
                lastUpdated := clock 1\<rparr>)
      else if ty = ''finalTest'' then
        Some (m\<lparr>finalTestScore := calculatedScore (questions s) (userAnswers s),
                certificateIssued := (80 \<le> calculatedScore (questions s) (userAnswers s)),
                status := (if 80 \<le> calculatedScore (questions s) (userAnswers s)
                           then Completed else Needs_revisit),
                lastUpdated := clock 0\<rparr>)
      else Some m)"
  by (simp add: submitTest_def Let_def)

lemma reset_module:
  "currentModule s = Some m \<Longrightarrow>
   currentModule (resetModuleForRetry ev wr clock s) =
     Some (m\<lparr>status := Started,
             assignments := \<lparr>completed = None, responses_given = None\<rparr>,
             quizzes := [], finalTestScore := 0, certificateIssued := False,
             lastUpdated := clock 0\<rparr>)"
  by (simp add: resetModuleForRetry_def Let_def)

text \<open>
  C4, as amended. An operation on the current module keeps the module's identity and
  either leaves \<open>status\<close> as it is or sets the target that belongs to the operation,
  whatever the status was: completing the assignment sets assignment_done, a final-test
  submission sets completed or needs_revisit by its score, a reset sets started. When
  the operation is applied in the status from which the state machine fires it, the
  change is one of the listed transitions.
\<close>

theorem status_changes:
  assumes "currentModule s = Some m"
  shows "\<exists>m'. currentModule (apply_op ev wr clock op s) = Some m' \<and>
           module_id m' = module_id m \<and>
           (status m' = status m \<or>
            (op = Op_goToNextAssignmentSection \<or> op = Op_submitAssignment) \<and>
              status m' = Assignment_done \<or>
            op = Op_submitTest ''finalTest'' \<and>
              status m' =
                (if 80 \<le> calculatedScore (questions s) (userAnswers s)
                 then Completed else Needs_revisit) \<or>
            op = Op_resetModuleForRetry \<and> status m' = Started) \<and>
           (source_status op (status m) \<longrightarrow>
              status m' = status m \<or> listed_transition (status m) (status m'))"
proof (cases op)
  case Op_goToNextAssignmentSection
  then show ?thesis
    using assms by (auto simp: goToNext_module listed_transition_def)
next
  case Op_goToPreviousAssignmentSection
  then show ?thesis using assms by simp
next
  case Op_submitAssignment
  then show ?thesis
    using assms by (auto simp: submitAssignment_module listed_transition_def)
next
  case (Op_handleAssignmentResponseChange sec tsk v)
  then show ?thesis using assms by simp
next
  case (Op_generateTest r ty)
  then show ?thesis using assms by simp
next
  case (Op_handleAnswerChange i opt)
  then show ?thesis using assms by simp
next
  case (Op_submitTest ty)
  then show ?thesis
    using assms by (auto simp: submitTest_module listed_transition_def)
next
  case Op_resetModuleForRetry
  then show ?thesis
    using assms by (auto simp: reset_module listed_transition_def)
qed

lemma passed_state_module:
  "currentModule passed_state =
     Some (sample_module\<lparr>teacherPicks := no_picks, finalTestScore := 80,
                          certificateIssued := True, status := Completed,
                          lastUpdated := sample_clock 0\<rparr>)"
proof -
  let ?g = "generateTest quiz_env malformed_reply ''finalTest'' created_state"
  let ?a = "handleAnswerChange 3 ''D'' (handleAnswerChange 2 ''C''
              (handleAnswerChange 1 ''B'' (handleAnswerChange 0 ''A'' ?g)))"
  have g: "questions ?g = sample_questions" "userAnswers ?g = Map.empty"
    using generateTest_sample [of created_state "''finalTest''"]
    by (simp_all add: created_state_module)
  have q: "questions ?a = sample_questions"
    and u: "userAnswers ?a = [0 \<mapsto> ''A'', 1 \<mapsto> ''B'', 2 \<mapsto> ''C'', 3 \<mapsto> ''D'']"
    and c: "currentModule ?a = Some (sample_module\<lparr>teacherPicks := no_picks\<rparr>)"
    using g by (simp_all add: handleAnswerChange_def created_state_module)
  have ne: "questions ?a \<noteq> []" using q by (simp add: sample_questions_def)
  have "correctCount sample_questions [0 \<mapsto> ''A'', 1 \<mapsto> ''B'', 2 \<mapsto> ''C'', 3 \<mapsto> ''D''] = 4"
    by (simp add: correctCount_def sample_questions_def sample_question_def)
  moreover have "length sample_questions = 5" by (simp add: sample_questions_def)
  ultimately have sc: "calculatedScore (questions ?a) (userAnswers ?a) = 80"
    using q u by (simp add: calculatedScore_def score_of_5)
  show ?thesis
    unfolding passed_state_def using ne c sc by (simp add: submitTest_final_module)
qed

lemma assignmentContentSt_frame [simp]:
  "assignmentContentSt (handleAnswerChange i opt s) = assignmentContentSt s"
  "assignmentContentSt (generateTest ev r ty s) = assignmentContentSt s"
  "assignmentContentSt (submitTest ev wr clock ty s) = assignmentContentSt s"
  by (auto simp: handleAnswerChange_def generateTest_def submitTest_def Let_def
      split: option.splits sum.splits reply.splits)

lemma created_state_content: "assignmentContentSt created_state = None"
  by (simp add: created_state_def createNewModule_def quiz_env_def sample_defs blank_def
      is_space_def falsy_def digits.simps Let_def generateModuleContent_def resource_stage_def
      assignment_stage_def no_candidates_def first_part_def updateModuleInFirestore_def
      merge_teacherPicks doc_of_module_def module_of_doc_def)

lemma passed_state_last_section: "\<not> on_earlier_section passed_state"
  by (simp add: on_earlier_section_def passed_state_def created_state_content)

theorem status_changes_witness:
  "(\<exists>m. currentModule passed_state = Some m \<and> status m = Completed) \<and>
   (\<exists>m'. currentModule (apply_op quiz_env None sample_clock Op_goToNextAssignmentSection
                          passed_state) = Some m' \<and>
         status m' = Assignment_done) \<and>
   (\<exists>m m'. currentModule revisit_state = Some m \<and> status m = Needs_revisit \<and>
          source_status Op_resetModuleForRetry (status m) \<and>
          currentModule (apply_op sample_env None sample_clock Op_resetModuleForRetry
                           revisit_state) = Some m' \<and>
          status m' = Started \<and> listed_transition (status m) (status m'))"
proof -
  obtain m where m: "currentModule revisit_state = Some m" and st: "status m = Needs_revisit"
    by (simp add: revisit_state_def sample_defs)
  from status_changes [OF m, of sample_env None sample_clock Op_resetModuleForRetry] m st
  have "\<exists>m'. currentModule (apply_op sample_env None sample_clock Op_resetModuleForRetry
                           revisit_state) = Some m' \<and>
          status m' = Started \<and> listed_transition (status m) (status m')"
    by (auto simp: reset_module)
  moreover have "\<exists>m'. currentModule (apply_op quiz_env None sample_clock
                          Op_goToNextAssignmentSection passed_state) = Some m' \<and>
         status m' = Assignment_done"
    using status_changes [OF passed_state_module, of quiz_env None sample_clock
        Op_goToNextAssignmentSection]
    by (auto simp: goToNext_module passed_state_module passed_state_last_section)
  ultimately show ?thesis
    using m st by (auto simp: passed_state_module)
qed

text \<open>
  The operations do not look at the status they find. A final-test submission on a
  module that is still started takes it to needs_revisit; and after module creation, test
  generation, four right answers and a final-test submission, the module is completed
  and \<open>goToNextAssignmentSection\<close> takes it back to assignment_done. Neither change is
  listed.
\<close>

theorem unlisted_status_changes:
  "(\<exists>m m'. currentModule answered_state = Some m \<and> status m = Started \<and>
      currentModule (apply_op sample_env None sample_clock (Op_submitTest ''finalTest'')
                       answered_state) = Some m' \<and>
      status m' = Needs_revisit \<and> \<not> listed_transition (status m) (status m')) \<and>
   (\<exists>m m'. currentModule passed_state = Some m \<and> status m = Completed \<and>
      currentModule (apply_op quiz_env None sample_clock Op_goToNextAssignmentSection
                       passed_state) = Some m' \<and>
      status m' = Assignment_done \<and> \<not> listed_transition (status m) (status m'))"
proof -
  have a: "currentModule answered_state = Some sample_module"
    and ne: "questions answered_state \<noteq> []"
    and st: "status sample_module = Started"
    by (simp_all add: sample_defs)
  have "currentModule (apply_op sample_env None sample_clock (Op_submitTest ''finalTest'')
                       answered_state) =
        Some (sample_module\<lparr>finalTestScore := 40, certificateIssued := False,
                             status := Needs_revisit, lastUpdated := sample_clock 0\<rparr>)"
    using a ne by (simp add: submitTest_final_module answered_state_score)
  moreover have "\<exists>m'. currentModule (apply_op quiz_env None sample_clock
                          Op_goToNextAssignmentSection passed_state) = Some m' \<and>
         status m' = Assignment_done"
    by (auto simp: goToNext_module passed_state_module passed_state_last_section)
  ultimately show ?thesis
    using a st by (auto simp: passed_state_module listed_transition_def)
qed

section \<open>Certificate and status\<close>

lemma createNewModule_creates:
  assumes "\<not> blank (topic s)" and "db_ready ev" and "\<not> falsy (geminiApiKey ev)"
  shows "\<exists>m'. currentModule
               (createNewModule ev nowMs clock None r1 w1 r2 w2 readErr s) = Some m' \<and>
              status m' = Started \<and> \<not> certificateIssued m'"
proof (cases readErr)
  case None
  then show ?thesis
    using createNewModule_reads_back [OF assms, of nowMs clock r1 w1 r2 w2] by auto
next
  case (Some msg)
  then show ?thesis
    using assms by (simp add: createNewModule_def Let_def newModuleData_def)
qed

lemma questions_frame [simp]:
  "questions (submitTest ev wr clock ty s) = questions s"
  "questions (goToNextAssignmentSection ev wr clock s) = questions s"
  by (auto simp: submitTest_def goToNextAssignmentSection_def complete_assignment_def Let_def
      split: option.splits)

text \<open>
  C1, as amended. Module creation, final-test submission and reset leave the current
  module with \<open>certificateIssued\<close> exactly when its \<open>status\<close> is completed, whatever the
  state before: a created module and a reset module are started with no certificate, and
  after a final-test submission \<open>certificateIssued\<close> holds exactly when the computed score,
  now \<open>finalTestScore\<close>, is at least 80, and exactly when the status is completed. A quiz
  submission leaves \<open>status\<close> and \<open>certificateIssued\<close> as they were, so the equivalence
  holds after it exactly when it held before.
\<close>

theorem certificate_iff_completed:
  "(currentModule (createNewModule ev nowMs clock createErr r1 w1 r2 w2 readErr s) =
      currentModule s \<or>
    (\<exists>m'. currentModule (createNewModule ev nowMs clock createErr r1 w1 r2 w2 readErr s) =
            Some m' \<and> status m' = Started \<and> \<not> certificateIssued m')) \<and>
   (\<not> blank (topic s) \<and> db_ready ev \<and> \<not> falsy (geminiApiKey ev) \<longrightarrow>
      (\<exists>m'. currentModule (createNewModule ev nowMs clock None r1 w1 r2 w2 readErr s) =
              Some m' \<and> status m' = Started \<and> \<not> certificateIssued m')) \<and>
   (questions s \<noteq> [] \<and> currentModule s = Some m \<longrightarrow>
      (\<exists>m'. currentModule (submitTest ev wr clock ''finalTest'' s) = Some m' \<and>
            finalTestScore m' = calculatedScore (questions s) (userAnswers s) \<and>
            certificateIssued m' = (80 \<le> finalTestScore m') \<and>
            certificateIssued m' = (status m' = Completed)) \<and>
      (\<exists>m'. currentModule (submitTest ev wr clock ''quiz'' s) = Some m' \<and>
            status m' = status m \<and> certificateIssued m' = certificateIssued m)) \<and>
   (currentModule s = Some m \<longrightarrow>
      (\<exists>m'. currentModule (resetModuleForRetry ev wr clock s) = Some m' \<and>
            status m' = Started \<and> \<not> certificateIssued m'))"
proof -
  have a: "currentModule (createNewModule ev nowMs clock createErr r1 w1 r2 w2 readErr s) =
      currentModule s \<or>
    (\<exists>m'. currentModule (createNewModule ev nowMs clock createErr r1 w1 r2 w2 readErr s) =
            Some m' \<and> status m' = Started \<and> \<not> certificateIssued m')"
    by (rule createNewModule_module)
  have b: "\<exists>m'. currentModule (createNewModule ev nowMs clock None r1 w1 r2 w2 readErr s) =
              Some m' \<and> status m' = Started \<and> \<not> certificateIssued m'"
    if "\<not> blank (topic s) \<and> db_ready ev \<and> \<not> falsy (geminiApiKey ev)"
    using that createNewModule_creates by simp
  show ?thesis
    using a b by (simp add: submitTest_final_module submitTest_quiz_module reset_module)
qed

theorem certificate_iff_completed_witness:
  "(\<exists>m. currentModule created_state = Some m \<and> status m = Started \<and>
        \<not> certificateIssued m) \<and>
   (\<exists>m. currentModule passed_state = Some m \<and> finalTestScore m = 80 \<and>
        certificateIssued m \<and> status m = Completed) \<and>
   (\<exists>m m'. currentModule revisit_state = Some m \<and> status m = Needs_revisit \<and>
        currentModule (resetModuleForRetry sample_env None sample_clock revisit_state) =
          Some m' \<and>
        status m' = Started \<and> \<not> certificateIssued m')"
proof -
  let ?s0 = "initial_state\<lparr>topic := ''Graph Theory Basics''\<rparr>"
  let ?g = "generateTest quiz_env malformed_reply ''finalTest'' created_state"
  let ?a = "handleAnswerChange 3 ''D'' (handleAnswerChange 2 ''C''
              (handleAnswerChange 1 ''B'' (handleAnswerChange 0 ''A'' ?g)))"
  have guards: "\<not> blank (topic ?s0) \<and> db_ready quiz_env \<and> \<not> falsy (geminiApiKey quiz_env)"
    by (simp add: initial_state_def blank_def is_space_def quiz_env_def sample_env_def
        falsy_def)
  have first: "\<exists>m. currentModule created_state = Some m \<and> status m = Started \<and>
        \<not> certificateIssued m"
    using certificate_iff_completed [where ev = quiz_env and nowMs = 1 and clock = sample_clock
        and ?r1.0 = no_candidates and ?w1.0 = None and ?r2.0 = no_candidates and ?w2.0 = None
        and readErr = None and s = ?s0] guards
    unfolding created_state_def by blast
  have g: "questions ?g = sample_questions"
    using generateTest_sample [of created_state "''finalTest''"]
    by (simp add: created_state_module)
  have ne: "questions ?a \<noteq> []"
    and c: "currentModule ?a = Some (sample_module\<lparr>teacherPicks := no_picks\<rparr>)"
    using g by (simp_all add: handleAnswerChange_def created_state_module sample_questions_def)
  have second: "\<exists>m. currentModule passed_state = Some m \<and> finalTestScore m = 80 \<and>
        certificateIssued m \<and> status m = Completed"
    using certificate_iff_completed [where ev = quiz_env and wr = None and clock = sample_clock
        and s = ?a and m = "sample_module\<lparr>teacherPicks := no_picks\<rparr>"] ne c
    by (simp add: passed_state_module)
  obtain m where m: "currentModule revisit_state = Some m" and st: "status m = Needs_revisit"
    by (simp add: revisit_state_def sample_defs)
  have third: "\<exists>m'. currentModule (resetModuleForRetry sample_env None sample_clock
                   revisit_state) = Some m' \<and> status m' = Started \<and> \<not> certificateIssued m'"
    using certificate_iff_completed [where ev = sample_env and wr = None
        and clock = sample_clock and s = revisit_state and m = m] m
    by simp
  show ?thesis using first second third m st by auto
qed

text \<open>
  The equivalence does not hold after every quiz submission. After module creation, test
  generation, four right answers and a final-test submission the module is completed with
  a certificate; \<open>goToNextAssignmentSection\<close> then sets \<open>status\<close> to assignment_done and
  leaves \<open>certificateIssued\<close>, and a quiz submission after that keeps both.
\<close>

theorem certificate_without_completion:
  "(\<exists>m. currentModule passed_state = Some m \<and> certificateIssued m \<and> status m = Completed) \<and>
   (\<exists>m. currentModule
          (submitTest quiz_env None sample_clock ''quiz''
             (goToNextAssignmentSection quiz_env None sample_clock passed_state)) = Some m \<and>
        certificateIssued m \<and> status m = Assignment_done \<and> status m \<noteq> Completed \<and>
        length (quizzes m) = 1)"
proof -
  let ?n = "goToNextAssignmentSection quiz_env None sample_clock passed_state"
  let ?g = "generateTest quiz_env malformed_reply ''finalTest'' created_state"
  have g: "questions ?g = sample_questions"
    using generateTest_sample [of created_state "''finalTest''"]
    by (simp add: created_state_module)
  have q: "questions ?n \<noteq> []"
    unfolding passed_state_def using g
    by (simp add: handleAnswerChange_def sample_questions_def)
  have n: "currentModule ?n =
      Some (sample_module\<lparr>teacherPicks := no_picks, finalTestScore := 80,
                           certificateIssued := True, status := Completed,
                           lastUpdated := sample_clock 0,
                           assignments := \<lparr>completed = Some True, responses_given = None\<rparr>,
                           status := Assignment_done, lastUpdated := sample_clock 0\<rparr>)"
    by (simp add: goToNext_module passed_state_module passed_state_last_section
        sample_module_def newModuleData_def)
  show ?thesis
    using q n
    by (simp add: submitTest_quiz_module passed_state_module sample_module_def
        newModuleData_def)
qed

end
